theory Spec2Isabelle
  imports Complex_Main "HOL-Library.Sublist" "HOL-Library.AList"
begin

section \<open>Values shared by both source files\<close>

text \<open>
  Exceptions are values. Every constructor is a subclass of Python's \<^verbatim>\<open>Exception\<close>, which
  is what the handlers of the sources catch. \<open>ExternalError\<close> stands for whatever an
  outside call (the HTTP library, the hosted API, pandas, the generator classes) raises.
\<close>

datatype exn =
    IndexError
  | AttributeError
  | TypeError
  | ValueError string
  | JSONDecodeError
  | UnicodeDecodeError
  | ExternalError string

text \<open>
  Python values that travel as JSON: request payloads, configuration values, parsed model
  answers and dataframe cells. A dict is the list of its items, in insertion order, with
  distinct keys. Floats are only stored and passed on by the modelled code, never
  computed with, so they are carried as reals.
\<close>

datatype json =
    JNull
  | JBool bool
  | JInt int
  | JFloat real
  | JString string
  | JArray "json list"
  | JObject "(string \<times> json) list"

text \<open>\<^verbatim>\<open>xs[i]\<close> for an index \<open>i \<ge> 0\<close>: IndexError when out of range.\<close>

definition py_index :: "'a list \<Rightarrow> nat \<Rightarrow> exn + 'a" where
  "py_index xs i = (if i < length xs then Inr (xs ! i) else Inl IndexError)"

text \<open>\<^verbatim>\<open>d.get(key, default)\<close> on a dict.\<close>

definition dict_get :: "(string \<times> json) list \<Rightarrow> string \<Rightarrow> json \<Rightarrow> json" where
  "dict_get d key dflt = (case map_of d key of None \<Rightarrow> dflt | Some v \<Rightarrow> v)"

section \<open>Python string operations used by the sources\<close>

text \<open>
  Strings are \<^typ>\<open>string\<close>. Every separator and marker of the sources is ASCII, so
  cutting a text at them gives the same pieces whether the text is read as code
  points or as UTF-8 bytes.

  \<open>str_split s sep\<close> is Python's \<^verbatim>\<open>s.split(sep)\<close> for a given separator: the text is
  scanned from the left, every occurrence of the separator found that way ends a
  piece, and the scan goes on behind the occurrence. The result always has at least
  one piece. The sources only pass three non-empty constants as separators; for the
  empty separator, which Python rejects with ValueError, the model returns the text
  unsplit.
\<close>

fun split_from :: "string \<Rightarrow> string \<Rightarrow> string \<Rightarrow> string list" where
  "split_from sep cur [] = [cur]"
| "split_from sep cur (c # cs) =
     (if sep \<noteq> [] \<and> prefix sep (c # cs)
      then cur # split_from sep [] (drop (length sep) (c # cs))
      else split_from sep (cur @ [c]) cs)"

definition str_split :: "string \<Rightarrow> string \<Rightarrow> string list" where
  "str_split s sep = split_from sep [] s"

definition NL :: string where
  "NL = ''\<newline>''"

text \<open>\<^verbatim>\<open>str(i)\<close> for an integer: its decimal digits, with a minus sign when negative.\<close>

fun digits :: "nat \<Rightarrow> string" where
  "digits n =
     (if n < 10 then [char_of (48 + n)]
      else digits (n div 10) @ [char_of (48 + n mod 10)])"

definition str_int :: "int \<Rightarrow> string" where
  "str_int i = (if i < 0 then CHR ''-'' # digits (nat (- i)) else digits (nat i))"

section \<open>models/model.py: the streamed-event decoder\<close>

text \<open>
  \<^verbatim>\<open>extract_data\<close>: the loop over the lines carries the flag \<^verbatim>\<open>should_extract\<close> and the
  list \<^verbatim>\<open>extracted_data\<close>. The tests are \<^verbatim>\<open>startswith\<close> tests, and \<^verbatim>\<open>line[6:]\<close> is
  \<open>drop 6 line\<close>.
\<close>

fun extract_loop :: "string list \<Rightarrow> bool \<Rightarrow> string list \<Rightarrow> string list" where
  "extract_loop [] should_extract extracted_data = extracted_data"
| "extract_loop (line # lines) should_extract extracted_data =
     (if prefix ''event: finish'' line
      then extract_loop lines True extracted_data
      else if should_extract \<and> prefix ''data: '' line
      then (if length (drop 6 line) > 0
            then extract_loop lines should_extract (extracted_data @ [drop 6 line])
            else extract_loop lines should_extract extracted_data)
      else extract_loop lines should_extract extracted_data)"

definition extract_data :: "string \<Rightarrow> string list" where
  "extract_data text = extract_loop (str_split text NL) False []"

section \<open>models/model.py: the world of the module\<close>

text \<open>
  The module state is the pair of counters of line 78. Every outside effect is recorded,
  in order, in \<open>trace\<close>: an invocation of \<^verbatim>\<open>completions_with_backoff\<close> with its request
  and its outcome, an invocation of \<^verbatim>\<open>requests.post\<close> with its arguments and its outcome,
  and every diagnostic printed. The module has no other effect; in particular it never
  sleeps.
\<close>

record request =
  rq_model :: string
  rq_messages :: json
  rq_temperature :: real
  rq_max_tokens :: int
  rq_n :: int
  rq_stop :: json

text \<open>
  What the module reads from a chat completion: the \<^verbatim>\<open>message.content\<close> of every choice,
  in order, and the two usage fields.
\<close>

record response =
  choices :: "string list"
  usage_completion_tokens :: int
  usage_prompt_tokens :: int

text \<open>
  An HTTP response is read only through \<^verbatim>\<open>response.content.decode('utf-8')\<close>: the
  decoded text, or \<open>None\<close> when the bytes are not UTF-8 and the decoding raises.
\<close>

datatype http_response = HttpResponse (decoded: "string option")

datatype diag =
    GptError exn
  | ProxyRetry exn
  | ProxyFailed
  | DecodeFailed exn
  | UnsupportedModel

datatype event =
    Completion request "exn + response"
  | Post string "(string \<times> string) list" json "exn + http_response"
  | Print diag

record world =
  completion_tokens :: int
  prompt_tokens :: int
  trace :: "event list"

text \<open>Line 78: \<^verbatim>\<open>completion_tokens = prompt_tokens = 0\<close> at import time.\<close>

definition init_world :: world where
  "init_world = \<lparr>completion_tokens = 0, prompt_tokens = 0, trace = []\<rparr>"

definition print :: "diag \<Rightarrow> world \<Rightarrow> world" where
  "print d w = w\<lparr>trace := trace w @ [Print d]\<rparr>"

fun is_Completion :: "event \<Rightarrow> bool" where
  "is_Completion (Completion rq r) = True"
| "is_Completion _ = False"

fun is_Post :: "event \<Rightarrow> bool" where
  "is_Post (Post url headers payload r) = True"
| "is_Post _ = False"

definition n_completions :: "world \<Rightarrow> nat" where
  "n_completions w = length (filter is_Completion (trace w))"

definition n_posts :: "world \<Rightarrow> nat" where
  "n_posts w = length (filter is_Post (trace w))"

text \<open>
  The outside: the hosted API behind \<^verbatim>\<open>completions_with_backoff\<close> and the HTTP gateway
  behind \<^verbatim>\<open>requests.post\<close>. The outcome of an invocation may depend on how many
  invocations came before it and on its arguments. One invocation of
  \<^verbatim>\<open>completions_with_backoff\<close> is one call of the decorated function as \<^verbatim>\<open>chatgpt\<close> sees
  it: the decorator's own retries on \<^verbatim>\<open>openai.APIError\<close> happen inside it, and it ends
  with a response or with an exception of another class.
\<close>

type_synonym api = "nat \<Rightarrow> request \<Rightarrow> exn + response"

type_synonym http = "nat \<Rightarrow> string \<Rightarrow> (string \<times> string) list \<Rightarrow> json \<Rightarrow> exn + http_response"

definition completions_with_backoff :: "api \<Rightarrow> request \<Rightarrow> world \<Rightarrow> (exn + response) \<times> world" where
  "completions_with_backoff api rq w =
     (let r = api (n_completions w) rq
      in (r, w\<lparr>trace := trace w @ [Completion rq r]\<rparr>))"

definition requests_post ::
  "http \<Rightarrow> string \<Rightarrow> (string \<times> string) list \<Rightarrow> json \<Rightarrow> world \<Rightarrow> (exn + http_response) \<times> world" where
  "requests_post http url headers payload w =
     (let r = http (n_posts w) url headers payload
      in (r, w\<lparr>trace := trace w @ [Post url headers payload r]\<rparr>))"

section \<open>models/model.py: the hosted API\<close>

text \<open>
  \<^verbatim>\<open>chatgpt\<close>, lines 112 to 125. The loop carries \<open>n\<close>, \<open>outputs\<close> and the counters. An
  exception of \<^verbatim>\<open>completions_with_backoff\<close> leaves the loop and the function.
\<close>

function chatgpt_loop :: "api \<Rightarrow> request \<Rightarrow> int \<Rightarrow> string list \<Rightarrow> world \<Rightarrow> (exn + string list) \<times> world" where
  "chatgpt_loop api rq n outputs w =
     (if n > 0
      then (case completions_with_backoff api (rq\<lparr>rq_n := min n 20\<rparr>) w of
              (Inl e, w1) \<Rightarrow> (Inl e, w1)
            | (Inr res, w1) \<Rightarrow>
                chatgpt_loop api rq (n - min n 20) (outputs @ choices res)
                  (w1\<lparr>completion_tokens := completion_tokens w1 + usage_completion_tokens res,
                      prompt_tokens := prompt_tokens w1 + usage_prompt_tokens res\<rparr>))
      else (Inr outputs, w))"
  by pat_completeness auto
termination
  by (relation "measure (\<lambda>(api, rq, n, outputs, w). nat n)") auto

definition chatgpt ::
  "api \<Rightarrow> json \<Rightarrow> string \<Rightarrow> real \<Rightarrow> int \<Rightarrow> int \<Rightarrow> json \<Rightarrow> world \<Rightarrow> (exn + string list) \<times> world" where
  "chatgpt api messages model temperature max_tokens n stop w =
     chatgpt_loop api
       \<lparr>rq_model = model, rq_messages = messages, rq_temperature = temperature,
        rq_max_tokens = max_tokens, rq_n = n, rq_stop = stop\<rparr> n [] w"

text \<open>
  The number of passes of the loop of \<^verbatim>\<open>chatgpt\<close> for a sample count \<open>n\<close>, and the request
  of pass \<open>k\<close> (counted from 0): the caller's request with \<open>min(remaining, 20)\<close> samples.
\<close>

definition n_calls :: "int \<Rightarrow> nat" where
  "n_calls n = nat \<lceil>real_of_int n / 20\<rceil>"

definition batch :: "request \<Rightarrow> int \<Rightarrow> nat \<Rightarrow> request" where
  "batch rq n k = rq\<lparr>rq_n := min (n - 20 * int k) 20\<rparr>"

text \<open>
  \<^verbatim>\<open>gpt\<close>, lines 97 to 109. \<^verbatim>\<open>cnt\<close> counts down from 5. An attempt is the call of
  \<^verbatim>\<open>chatgpt\<close>, the index \<^verbatim>\<open>[0]\<close> (IndexError on an empty list) and the split; any
  exception in it is printed and costs one unit of \<^verbatim>\<open>cnt\<close>.
\<close>

definition user_message :: "string \<Rightarrow> json" where
  "user_message prompt = JArray [JObject [(''role'', JString ''user''), (''content'', JString prompt)]]"

fun gpt_loop ::
  "api \<Rightarrow> json \<Rightarrow> string \<Rightarrow> real \<Rightarrow> int \<Rightarrow> int \<Rightarrow> json \<Rightarrow> nat \<Rightarrow> world \<Rightarrow> string list \<times> world" where
  "gpt_loop api messages model temperature max_tokens n stop 0 w = ([], w)"
| "gpt_loop api messages model temperature max_tokens n stop (Suc cnt) w =
     (case chatgpt api messages model temperature max_tokens n stop w of
        (Inl e, w1) \<Rightarrow>
          gpt_loop api messages model temperature max_tokens n stop cnt (print (GptError e) w1)
      | (Inr outs, w1) \<Rightarrow>
          (case py_index outs 0 of
             Inl e \<Rightarrow>
               gpt_loop api messages model temperature max_tokens n stop cnt (print (GptError e) w1)
           | Inr s \<Rightarrow> (str_split s NL, w1)))"

definition gpt ::
  "api \<Rightarrow> string \<Rightarrow> string \<Rightarrow> real \<Rightarrow> int \<Rightarrow> int \<Rightarrow> json \<Rightarrow> world \<Rightarrow> string list \<times> world" where
  "gpt api prompt model temperature max_tokens n stop w =
     gpt_loop api (user_message prompt) model temperature max_tokens n stop 5 w"

text \<open>
  \<^verbatim>\<open>gpt_usage\<close>, lines 128 to 136, reads the counters and changes nothing. Its \<^verbatim>\<open>cost\<close>
  entry is floating-point arithmetic on them and is left out.
\<close>

definition gpt_usage :: "string \<Rightarrow> world \<Rightarrow> (int \<times> int) \<times> world" where
  "gpt_usage backend w = ((completion_tokens w, prompt_tokens w), w)"

section \<open>models/model.py: the HTTP gateway\<close>

definition URL :: string where
  "URL = ''https://api.chatglm.cn/v1/chat/completions''"

definition ID :: string where
  "ID = ''**''"

definition AUTH :: string where
  "AUTH = ''**''"

definition CONTENT_TYPE :: string where
  "CONTENT_TYPE = ''application/json; charset=utf-8''"

definition BASE_MODEL_GLM :: string where
  "BASE_MODEL_GLM = ''GLM4''"

definition headers :: "(string \<times> string) list" where
  "headers = [(''Authorization'', AUTH), (''Content-Type'', CONTENT_TYPE)]"

text \<open>
  The two markers of lines 222 and 260: the text \<^verbatim>\<open>"content":"\<close> that opens the
  assistant's message and the text \<^verbatim>\<open>","role":"assistant"\<close> that closes it.
\<close>

definition content_marker :: string where
  \<open>content_marker = ''"content":"''\<close>

definition role_marker :: string where
  \<open>role_marker = ''","role":"assistant"''\<close>

text \<open>
  The payload dicts of the three branches. \<^verbatim>\<open>json.dumps\<close> is applied to them on the way
  to \<^verbatim>\<open>requests.post\<close>; the model hands the dict itself to the gateway.
\<close>

definition payload_ChatGLM2 :: "string \<Rightarrow> int \<Rightarrow> int \<Rightarrow> real \<Rightarrow> json" where
  "payload_ChatGLM2 query seed max_tokens temperature =
     JObject [(''id'', JString ID), (''prompt'', JString query), (''seed'', JInt seed),
              (''max_tokens'', JString (str_int max_tokens)), (''temperature'', JFloat temperature)]"

definition payload_GLM4 :: "string \<Rightarrow> real \<Rightarrow> int \<Rightarrow> json" where
  "payload_GLM4 query temperature max_tokens =
     JObject [(''model'', JString ''glm4-alltools-130b-awq''),
              (''messages'', JArray [JObject [(''role'', JString ''user''), (''content'', JString query)]]),
              (''temperature'', JFloat temperature), (''top_p'', JFloat 0.7),
              (''stream'', JBool False), (''max_tokens'', JInt max_tokens)]"

definition payload_GLM3 :: "string \<Rightarrow> real \<Rightarrow> int \<Rightarrow> json" where
  "payload_GLM3 query temperature max_tokens =
     JObject [(''model'', JString ''chatglm3-32b-v0.8''),
              (''messages'', JArray [JObject [(''role'', JString ''user''), (''content'', JString query)]]),
              (''temperature'', JFloat temperature), (''top_p'', JFloat 0.7),
              (''stream'', JBool False), (''max_tokens'', JInt max_tokens)]"

text \<open>The payload of the branch that a model name selects.\<close>

definition branch_payload :: "string \<Rightarrow> string \<Rightarrow> real \<Rightarrow> int \<Rightarrow> int \<Rightarrow> json" where
  "branch_payload model query temperature max_tokens seed =
     (if model = ''ChatGLM2'' then payload_ChatGLM2 query seed max_tokens temperature
      else if model = ''GLM4'' then payload_GLM4 query temperature max_tokens
      else payload_GLM3 query temperature max_tokens)"

text \<open>
  The retry loop of lines 172 to 180, which lines 205 to 213 and 243 to 251 repeat word
  for word: \<^verbatim>\<open>tol\<close> counts down from 3, \<^verbatim>\<open>response\<close> stays \<^verbatim>\<open>None\<close> until a post returns.
\<close>

fun post_retry ::
  "http \<Rightarrow> string \<Rightarrow> (string \<times> string) list \<Rightarrow> json \<Rightarrow> nat \<Rightarrow> world \<Rightarrow> http_response option \<times> world" where
  "post_retry http url hdrs payload 0 w = (None, w)"
| "post_retry http url hdrs payload (Suc tol) w =
     (case requests_post http url hdrs payload w of
        (Inr response, w1) \<Rightarrow> (Some response, w1)
      | (Inl e, w1) \<Rightarrow> post_retry http url hdrs payload tol (print (ProxyRetry e) w1))"

text \<open>
  Lines 221 to 226 (branch \<^verbatim>\<open>'GLM4'\<close>) and lines 259 to 264 (branch \<^verbatim>\<open>'GLM3'\<close>): the
  \<^verbatim>\<open>try\<close> block indexes the two splits, and the handler prints and returns the empty
  list.
\<close>

definition decode_GLM4 :: "string \<Rightarrow> world \<Rightarrow> string list \<times> world" where
  "decode_GLM4 reply w =
     (case (case py_index (str_split reply content_marker) 1 of
              Inl e \<Rightarrow> Inl e
            | Inr rest \<Rightarrow> py_index (str_split rest role_marker) 0) of
        Inl e \<Rightarrow> ([], print (DecodeFailed e) w)
      | Inr content \<Rightarrow> (str_split content NL, w))"

definition decode_GLM3 :: "string \<Rightarrow> world \<Rightarrow> string list \<times> world" where
  "decode_GLM3 reply w =
     (case (case py_index (str_split reply content_marker) 1 of
              Inl e \<Rightarrow> Inl e
            | Inr rest \<Rightarrow> py_index (str_split rest role_marker) 0) of
        Inl e \<Rightarrow> ([], print (DecodeFailed e) w)
      | Inr content \<Rightarrow> (str_split content NL, w))"

text \<open>
  \<^verbatim>\<open>get_glm_reply\<close>, lines 157 to 268. The decoding of the response bytes stands outside
  every \<^verbatim>\<open>try\<close>, so a UnicodeDecodeError leaves the function.
\<close>

definition get_glm_reply ::
  "http \<Rightarrow> string \<Rightarrow> string \<Rightarrow> real \<Rightarrow> int \<Rightarrow> int \<Rightarrow> world \<Rightarrow> (exn + string list) \<times> world" where
  "get_glm_reply http query model temperature max_tokens seed w =
     (if model = ''ChatGLM2'' then
        (case post_retry http URL headers (payload_ChatGLM2 query seed max_tokens temperature) 3 w of
           (None, w1) \<Rightarrow> (Inr [], print ProxyFailed w1)
         | (Some response, w1) \<Rightarrow>
             (case decoded response of
                None \<Rightarrow> (Inl UnicodeDecodeError, w1)
              | Some reply \<Rightarrow> (Inr (extract_data reply), w1)))
      else if model = ''GLM4'' then
        (case post_retry http URL headers (payload_GLM4 query temperature max_tokens) 3 w of
           (None, w1) \<Rightarrow> (Inr [], print ProxyFailed w1)
         | (Some response, w1) \<Rightarrow>
             (case decoded response of
                None \<Rightarrow> (Inl UnicodeDecodeError, w1)
              | Some reply \<Rightarrow> (case decode_GLM4 reply w1 of (out, w2) \<Rightarrow> (Inr out, w2))))
      else if model = ''GLM3'' then
        (case post_retry http URL headers (payload_GLM3 query temperature max_tokens) 3 w of
           (None, w1) \<Rightarrow> (Inr [], print ProxyFailed w1)
         | (Some response, w1) \<Rightarrow>
             (case decoded response of
                None \<Rightarrow> (Inl UnicodeDecodeError, w1)
              | Some reply \<Rightarrow> (case decode_GLM3 reply w1 of (out, w2) \<Rightarrow> (Inr out, w2))))
      else (Inr [], print UnsupportedModel w))"

definition glm ::
  "http \<Rightarrow> string \<Rightarrow> string \<Rightarrow> real \<Rightarrow> int \<Rightarrow> int \<Rightarrow> world \<Rightarrow> (exn + string list) \<times> world" where
  "glm http prompt model temperature max_tokens seed w =
     get_glm_reply http prompt model temperature max_tokens seed w"

section \<open>models/model.py: sequences of calls\<close>

text \<open>
  A caller of the module invokes its functions one after the other on the same module
  state. \<open>exec\<close> is one such invocation, \<open>exec_all\<close> a sequence of them.
\<close>

datatype call =
    CallGpt string string real int int json
  | CallChatgpt json string real int int json
  | CallGptUsage string
  | CallExtractData string
  | CallGlm string string real int int
  | CallGetGlmReply string string real int int

fun exec :: "api \<Rightarrow> http \<Rightarrow> call \<Rightarrow> world \<Rightarrow> world" where
  "exec api http (CallGpt prompt model temperature max_tokens n stop) w =
     snd (gpt api prompt model temperature max_tokens n stop w)"
| "exec api http (CallChatgpt messages model temperature max_tokens n stop) w =
     snd (chatgpt api messages model temperature max_tokens n stop w)"
| "exec api http (CallGptUsage backend) w = snd (gpt_usage backend w)"
| "exec api http (CallExtractData text) w = w"
| "exec api http (CallGlm prompt model temperature max_tokens seed) w =
     snd (glm http prompt model temperature max_tokens seed w)"
| "exec api http (CallGetGlmReply query model temperature max_tokens seed) w =
     snd (get_glm_reply http query model temperature max_tokens seed w)"

fun exec_all :: "api \<Rightarrow> http \<Rightarrow> call list \<Rightarrow> world \<Rightarrow> world" where
  "exec_all api http [] w = w"
| "exec_all api http (c # cs) w = exec_all api http cs (exec api http c w)"

text \<open>
  The usage reported by the invocations of \<^verbatim>\<open>completions_with_backoff\<close> that returned, read
  off the trace.
\<close>

fun reported_completion :: "event \<Rightarrow> int" where
  "reported_completion (Completion rq (Inr res)) = usage_completion_tokens res"
| "reported_completion _ = 0"

fun reported_prompt :: "event \<Rightarrow> int" where
  "reported_prompt (Completion rq (Inr res)) = usage_prompt_tokens res"
| "reported_prompt _ = 0"

section \<open>models/model.py: what a call may change\<close>

text \<open>
  \<open>accounted w w'\<close>: the state \<open>w'\<close> continues the trace of \<open>w\<close>, and each counter has grown
  by exactly the usage reported by the invocations of \<^verbatim>\<open>completions_with_backoff\<close> that
  returned in between.
\<close>

definition new_events :: "world \<Rightarrow> world \<Rightarrow> event list" where
  "new_events w w' = drop (length (trace w)) (trace w')"

definition accounted :: "world \<Rightarrow> world \<Rightarrow> bool" where
  "accounted w w' \<longleftrightarrow>
     take (length (trace w)) (trace w') = trace w \<and>
     completion_tokens w' = completion_tokens w + sum_list (map reported_completion (new_events w w')) \<and>
     prompt_tokens w' = prompt_tokens w + sum_list (map reported_prompt (new_events w w'))"

text \<open>The calls whose code reaches \<^verbatim>\<open>completions_with_backoff\<close>.\<close>

fun uses_hosted_api :: "call \<Rightarrow> bool" where
  "uses_hosted_api (CallGpt prompt mname temperature max_tokens n stop) = True"
| "uses_hosted_api (CallChatgpt messages mname temperature max_tokens n stop) = True"
| "uses_hosted_api _ = False"

text \<open>
  The steps the module takes on its state: it prints, it posts, an invocation of the
  hosted API fails, or an invocation returns what the API answers and lines 123 and 124
  add the reported usage.
\<close>

inductive evolves :: "api \<Rightarrow> world \<Rightarrow> world \<Rightarrow> bool" for api :: api where
  ev_refl: "evolves api w w"
| ev_trans: "evolves api w w1 \<Longrightarrow> evolves api w1 w2 \<Longrightarrow> evolves api w w2"
| ev_print: "evolves api w (print d w)"
| ev_post: "evolves api w (w\<lparr>trace := trace w @ [Post url hdrs payload r]\<rparr>)"
| ev_failed: "evolves api w (w\<lparr>trace := trace w @ [Completion rq (Inl e)]\<rparr>)"
| ev_ok: "api i rq = Inr res \<Longrightarrow>
     evolves api w (w\<lparr>trace := trace w @ [Completion rq (Inr res)],
       completion_tokens := completion_tokens w + usage_completion_tokens res,
       prompt_tokens := prompt_tokens w + usage_prompt_tokens res\<rparr>)"

text \<open>
  A gateway payload without its \<^verbatim>\<open>model\<close> entry, and an event without the model
  identifier of the payload it carries.
\<close>

fun without_model :: "json \<Rightarrow> json" where
  "without_model (JObject d) = JObject (filter (\<lambda>kv. fst kv \<noteq> ''model'') d)"
| "without_model j = j"

fun anonymous :: "event \<Rightarrow> event" where
  "anonymous (Post url hdrs payload r) = Post url hdrs (without_model payload) r"
| "anonymous e = e"

section \<open>models/model.py: sample environments\<close>

text \<open>
  Concrete behaviours of the outside, on which the functions above can be run: a gateway
  that refuses every connection, a gateway that answers every post with a given body, a
  hosted API whose first four invocations fail, and a hosted API that returns as many
  choices as it is asked for.
\<close>

definition gateway_down :: http where
  "gateway_down i url hdrs payload = Inl (ExternalError ''connection refused'')"

definition gateway_replying :: "string \<Rightarrow> http" where
  "gateway_replying body i url hdrs payload = Inr (HttpResponse (Some body))"

definition flaky_api :: api where
  "flaky_api i rq =
     (if i < 4 then Inl (ExternalError ''timeout'')
      else Inr \<lparr>choices = [''one\<newline>two''], usage_completion_tokens = 7,
                usage_prompt_tokens = 3\<rparr>)"

definition full_api :: api where
  "full_api i rq =
     Inr \<lparr>choices = replicate (nat (rq_n rq)) ''ok'', usage_completion_tokens = rq_n rq,
          usage_prompt_tokens = 3\<rparr>"

section \<open>QuestionDifficultyClassifier.py: data\<close>

text \<open>
  The configuration is a Python dict from option names to values. Truthiness decides
  \<^verbatim>\<open>not self.input_file\<close>.
\<close>

type_synonym config = "(string \<times> json) list"

fun truthy :: "json \<Rightarrow> bool" where
  "truthy JNull = False"
| "truthy (JBool b) = b"
| "truthy (JInt i) = (i \<noteq> 0)"
| "truthy (JFloat r) = (r \<noteq> 0)"
| "truthy (JString s) = (s \<noteq> [])"
| "truthy (JArray xs) = (xs \<noteq> [])"
| "truthy (JObject d) = (d \<noteq> [])"

text \<open>
  \<^verbatim>\<open>os.path.dirname\<close> on a POSIX path: the part up to the last slash, without its
  trailing slashes unless it consists of slashes only.
\<close>

definition dirname :: "string \<Rightarrow> string" where
  "dirname p =
     (let head = rev (dropWhile (\<lambda>c. c \<noteq> CHR ''/'') (rev p))
      in if head \<noteq> [] \<and> head \<noteq> replicate (length head) CHR ''/''
         then rev (dropWhile (\<lambda>c. c = CHR ''/'') (rev head))
         else head)"

text \<open>
  A dataframe read from JSON lines: its column labels, and its rows under the index
  0, 1, 2, ... A label is a string or, where \<^verbatim>\<open>pd.read_json\<close> converts it, a number. Each
  row holds the cells it has a value for; a column missing from a row is a NaN cell.
\<close>

record dataframe =
  columns :: "json list"
  rows :: "(json \<times> json) list list"

text \<open>
  What the file imports and calls but does not define, taken as parameters. Each of
  these calls returns or raises.
  \<^item> The constructor of the prompt template of \<^verbatim>\<open>utils.Prompts\<close> and its method
    \<^verbatim>\<open>question_synthesis_prompt\<close>; the three generator classes of \<^verbatim>\<open>utils\<close> and their
    method \<^verbatim>\<open>generate_text_from_input\<close>.
  \<^item> \<^verbatim>\<open>pd.read_json\<close>, \<^verbatim>\<open>json.loads\<close>, \<^verbatim>\<open>os.makedirs\<close> and \<^verbatim>\<open>DataFrame.to_json\<close>.
  \<^item> \<open>at_rejects\<close>: whether pandas refuses an assignment \<^verbatim>\<open>dataframe.at[idx, col] = v\<close>, as
    it does for a list or a dict as value and for a value that the column's type does
    not take, and with which exception.
  \<^item> \<open>find_label\<close>: the label that pandas finds for a key that is a number, a boolean or
    \<^verbatim>\<open>None\<close>, if any. The answer depends on the type of the whole index, not on one label.
  \<^item> \<^verbatim>\<open>str.lower\<close> and \<^verbatim>\<open>str.strip\<close>, whose Unicode tables are not part of the model.
\<close>

record 'g externals =
  QuestionCategoryPrompt :: "exn + unit"
  LocalModelGenerator :: "config \<Rightarrow> exn + 'g"
  APIGenerator_aisuite :: "config \<Rightarrow> exn + 'g"
  APIGenerator_request :: "config \<Rightarrow> exn + 'g"
  generate_text_from_input :: "'g \<Rightarrow> string list \<Rightarrow> exn + string list"
  question_synthesis_prompt :: "json option \<Rightarrow> exn + string"
  read_json :: "json \<Rightarrow> exn + dataframe"
  json_loads :: "string \<Rightarrow> exn + json"
  at_rejects :: "dataframe \<Rightarrow> nat \<Rightarrow> json \<Rightarrow> json \<Rightarrow> exn option"
  find_label :: "json \<Rightarrow> json list \<Rightarrow> json option"
  str_lower :: "string \<Rightarrow> string"
  str_strip :: "string \<Rightarrow> string"
  makedirs :: "string \<Rightarrow> exn option"
  to_json :: "string \<Rightarrow> dataframe \<Rightarrow> exn option"

text \<open>
  \<^verbatim>\<open>dataframe.at[idx, col] = v\<close>: pandas refuses the assignment and the frame stays as it
  is, or the cell is set, and a label that is not a column yet becomes one, with NaN in
  the other rows. The loop of \<^verbatim>\<open>run\<close> only uses row labels that exist; for a label
  beyond the index pandas adds a row, which the last branch records.
\<close>

definition at_set :: "'g externals \<Rightarrow> dataframe \<Rightarrow> nat \<Rightarrow> json \<Rightarrow> json \<Rightarrow> exn + dataframe" where
  "at_set ext df idx col v =
     (case at_rejects ext df idx col v of
        Some e \<Rightarrow> Inl e
      | None \<Rightarrow>
          Inr \<lparr>columns = (if col \<in> set (columns df) then columns df else columns df @ [col]),
               rows = (if idx < length (rows df)
                       then (rows df)[idx := AList.update col v (rows df ! idx)]
                       else rows df @ [[(col, v)]])\<rparr>)"

text \<open>
  \<^verbatim>\<open>key in dataframe.columns\<close>: a list or a dict cannot be hashed and the test raises
  TypeError; a string is among the labels when one of them is that string; for any
  other key pandas decides.
\<close>

definition in_columns :: "'g externals \<Rightarrow> json \<Rightarrow> dataframe \<Rightarrow> exn + bool" where
  "in_columns ext key df =
     (case key of
        JString k \<Rightarrow> Inr (JString k \<in> set (columns df))
      | JArray xs \<Rightarrow> Inl TypeError
      | JObject d \<Rightarrow> Inl TypeError
      | _ \<Rightarrow> Inr (find_label ext key (columns df) \<noteq> None))"

text \<open>\<^verbatim>\<open>dataframe[key]\<close> for a key that is among the labels: the cells of that column.\<close>

definition column_cells :: "'g externals \<Rightarrow> json \<Rightarrow> dataframe \<Rightarrow> json option list" where
  "column_cells ext key df =
     (case key of
        JString k \<Rightarrow> map (\<lambda>r. map_of r key) (rows df)
      | _ \<Rightarrow>
          (case find_label ext key (columns df) of
             Some label \<Rightarrow> map (\<lambda>r. map_of r label) (rows df)
           | None \<Rightarrow> []))"

record 'g classifier =
  config :: config
  input_file :: json
  output_file :: json
  input_key :: json
  output_key :: json
  model :: 'g

text \<open>
  The effects of the class, in order: the constructors it invokes, the outside calls of
  a run, and what it prints.
\<close>

datatype cdiag =
    JsonWarning string
  | ParseError exn
  | Saved json
  | RunError exn

datatype cevent =
    Construct string
  | ReadJson json
  | Generate "string list"
  | Makedirs string
  | ToJson string dataframe
  | CPrint cdiag

type_synonym cworld = "cevent list"

fun is_write :: "cevent \<Rightarrow> bool" where
  "is_write (Makedirs d) = True"
| "is_write (ToJson f df) = True"
| "is_write _ = False"

section \<open>QuestionDifficultyClassifier.py: construction\<close>

text \<open>
  \<^verbatim>\<open>__init_model__\<close>, lines 28 to 41. \<^verbatim>\<open>.lower()\<close> exists on strings only; on any other
  value the attribute lookup raises AttributeError. A generator class is constructed in
  the three supported branches only.
\<close>

definition init_model :: "'g externals \<Rightarrow> config \<Rightarrow> cworld \<Rightarrow> (exn + 'g) \<times> cworld" where
  "init_model ext cfg w =
     (case dict_get cfg ''generator_type'' (JString ''local'') of
        JString s \<Rightarrow>
          (let generator_type = str_lower ext s
           in if generator_type = ''local''
              then (LocalModelGenerator ext cfg, w @ [Construct ''LocalModelGenerator''])
              else if generator_type = ''aisuite''
              then (APIGenerator_aisuite ext cfg, w @ [Construct ''APIGenerator_aisuite''])
              else if generator_type = ''request''
              then (APIGenerator_request ext cfg, w @ [Construct ''APIGenerator_request''])
              else (Inl (ValueError (''Invalid generator type: '' @ generator_type)), w))
      | _ \<Rightarrow> (Inl AttributeError, w))"

text \<open>
  \<^verbatim>\<open>__init__\<close>, lines 8 to 26: the prompt template is constructed first (line 13), then
  the four options are read, the two file names are checked, and the generator is
  initialised.
\<close>

definition init_classifier :: "'g externals \<Rightarrow> config \<Rightarrow> cworld \<Rightarrow> (exn + 'g classifier) \<times> cworld" where
  "init_classifier ext cfg w =
     (case QuestionCategoryPrompt ext of
        Inl e \<Rightarrow> (Inl e, w @ [Construct ''QuestionCategoryPrompt''])
      | Inr prompts \<Rightarrow>
          (let inf = dict_get cfg ''input_file'' JNull;
               outf = dict_get cfg ''output_file'' JNull;
               ink = dict_get cfg ''input_key'' (JString ''question'');
               outk = dict_get cfg ''output_key'' (JString ''classification_result'')
           in if \<not> truthy inf \<or> \<not> truthy outf
              then (Inl (ValueError ''Both input_file and output_file must be specified in the config.''),
                    w @ [Construct ''QuestionCategoryPrompt''])
              else (case init_model ext cfg (w @ [Construct ''QuestionCategoryPrompt'']) of
                      (Inl e, w1) \<Rightarrow> (Inl e, w1)
                    | (Inr m, w1) \<Rightarrow>
                        (Inr \<lparr>config = cfg, input_file = inf, output_file = outf,
                              input_key = ink, output_key = outk, model = m\<rparr>, w1))))"

section \<open>QuestionDifficultyClassifier.py: the run\<close>

text \<open>
  \<^verbatim>\<open>_reformat_prompt\<close>, lines 43 to 57. The messages of the ValueErrors are cut to their
  fixed part.
\<close>

fun prompts_loop :: "'g externals \<Rightarrow> json option list \<Rightarrow> string list \<Rightarrow> exn + string list" where
  "prompts_loop ext [] formatted_prompts = Inr formatted_prompts"
| "prompts_loop ext (text # texts) formatted_prompts =
     (case question_synthesis_prompt ext text of
        Inl e \<Rightarrow> Inl e
      | Inr used_prompt \<Rightarrow>
          prompts_loop ext texts (formatted_prompts @ [str_strip ext used_prompt]))"

definition reformat_prompt :: "'g externals \<Rightarrow> 'g classifier \<Rightarrow> dataframe \<Rightarrow> exn + string list" where
  "reformat_prompt ext self df =
     (case in_columns ext (input_key self) df of
        Inl e \<Rightarrow> Inl e
      | Inr found \<Rightarrow>
          if \<not> found then Inl (ValueError ''input_key not found in the dataframe.'')
          else prompts_loop ext (column_cells ext (input_key self) df) [])"

text \<open>
  The \<^verbatim>\<open>try\<close> block of lines 76 to 79 for one answer: the exception it ends with, if any,
  and the dataframe it leaves. An empty answer stands for the empty dict. \<^verbatim>\<open>.get\<close>
  exists on a dict only, so any other parsed value raises AttributeError. Each of the
  two assignments can be refused; the first one stays when the second is refused.
\<close>

definition classify_row :: "'g externals \<Rightarrow> nat \<Rightarrow> string \<Rightarrow> dataframe \<Rightarrow> (exn + unit) \<times> dataframe" where
  "classify_row ext idx classification_str df =
     (case (if classification_str \<noteq> [] then json_loads ext classification_str
            else Inr (JObject [])) of
        Inl e \<Rightarrow> (Inl e, df)
      | Inr classification \<Rightarrow>
          (case classification of
             JObject d \<Rightarrow>
               (case at_set ext df idx (JString ''primary_category'')
                       (dict_get d ''primary_category'' (JString [])) of
                  Inl e \<Rightarrow> (Inl e, df)
                | Inr df1 \<Rightarrow>
                    (case at_set ext df1 idx (JString ''secondary_category'')
                            (dict_get d ''secondary_category'' (JString [])) of
                       Inl e \<Rightarrow> (Inl e, df1)
                     | Inr df2 \<Rightarrow> (Inr (), df2)))
           | _ \<Rightarrow> (Inl AttributeError, df)))"

text \<open>
  The loop of lines 74 to 84 over \<^verbatim>\<open>zip(dataframe.iterrows(), responses)\<close>, with \<^verbatim>\<open>idx\<close>
  counting from 0. The handler of line 81 prints the warning for a JSONDecodeError, the
  handler of line 83 prints every other exception, and the loop goes on.
\<close>

fun classify_loop ::
  "'g externals \<Rightarrow> nat \<Rightarrow> string list \<Rightarrow> dataframe \<Rightarrow> cworld \<Rightarrow> dataframe \<times> cworld" where
  "classify_loop ext idx [] df w = (df, w)"
| "classify_loop ext idx (classification_str # rest) df w =
     (case classify_row ext idx classification_str df of
        (Inl e, df1) \<Rightarrow>
          classify_loop ext (Suc idx) rest df1
            (w @ [CPrint (if e = JSONDecodeError then JsonWarning classification_str
                          else ParseError e)])
      | (Inr u, df1) \<Rightarrow> classify_loop ext (Suc idx) rest df1 w)"

text \<open>
  The loop as \<^verbatim>\<open>run\<close> enters it: the file has been read and the answers generated, and
  \<^verbatim>\<open>zip\<close> stops at the shorter of the rows and the answers.
\<close>

definition run_loop ::
  "'g externals \<Rightarrow> 'g classifier \<Rightarrow> dataframe \<Rightarrow> string list \<Rightarrow> string list \<Rightarrow> cworld \<Rightarrow> dataframe \<times> cworld" where
  "run_loop ext self df formatted_prompts responses w =
     classify_loop ext 0 (take (length (rows df)) responses) df
       (w @ [ReadJson (input_file self), Generate formatted_prompts])"

text \<open>
  The \<^verbatim>\<open>try\<close> block of \<^verbatim>\<open>run\<close>, lines 64 to 97. \<^verbatim>\<open>os.path.dirname\<close> wants a string.
\<close>

definition run_body :: "'g externals \<Rightarrow> 'g classifier \<Rightarrow> cworld \<Rightarrow> (exn + unit) \<times> cworld" where
  "run_body ext self w =
     (case read_json ext (input_file self) of
        Inl e \<Rightarrow> (Inl e, w @ [ReadJson (input_file self)])
      | Inr df \<Rightarrow>
     (case reformat_prompt ext self df of
        Inl e \<Rightarrow> (Inl e, w @ [ReadJson (input_file self)])
      | Inr formatted_prompts \<Rightarrow>
     (case generate_text_from_input ext (model self) formatted_prompts of
        Inl e \<Rightarrow> (Inl e, w @ [ReadJson (input_file self), Generate formatted_prompts])
      | Inr responses \<Rightarrow>
     (case run_loop ext self df formatted_prompts responses w of
        (df1, w1) \<Rightarrow>
     (case in_columns ext (output_key self) df1 of
        Inl e \<Rightarrow> (Inl e, w1)
      | Inr found \<Rightarrow>
          if found
          then (Inl (ValueError ''Found output_key in the dataframe, which would overwrite an existing column.''), w1)
          else (case output_file self of
                  JString path \<Rightarrow>
                    (case makedirs ext (dirname path) of
                       Some e \<Rightarrow> (Inl e, w1 @ [Makedirs (dirname path)])
                     | None \<Rightarrow>
                         (case to_json ext path df1 of
                            Some e \<Rightarrow> (Inl e, w1 @ [Makedirs (dirname path), ToJson path df1])
                          | None \<Rightarrow>
                              (Inr (), w1 @ [Makedirs (dirname path), ToJson path df1,
                                             CPrint (Saved (output_file self))])))
                | _ \<Rightarrow> (Inl TypeError, w1)))))))"

text \<open>
  \<^verbatim>\<open>run\<close>, lines 59 to 100: the handler of line 99 catches every exception of the block,
  prints it, and the method returns.
\<close>

definition run :: "'g externals \<Rightarrow> 'g classifier \<Rightarrow> cworld \<Rightarrow> (exn + unit) \<times> cworld" where
  "run ext self w =
     (case run_body ext self w of
        (Inl e, w1) \<Rightarrow> (Inr (), w1 @ [CPrint (RunError e)])
      | (Inr u, w1) \<Rightarrow> (Inr (), w1))"

section \<open>QuestionDifficultyClassifier.py: sample environments\<close>

text \<open>
  Concrete outsides on which the classifier can be run. In the first, the input file
  holds two questions, the generator answers the first prompt with text that is not JSON
  and the second with a JSON object, pandas accepts every assignment and the file system
  every write, and \<^verbatim>\<open>str.lower\<close> and \<^verbatim>\<open>str.strip\<close> are given on ASCII text (the letters A
  to Z are lowered; the characters of codes 9 to 13 and 28 to 32 are stripped). In the
  second, the constructor of the prompt template fails.
\<close>

definition ascii_lower :: "string \<Rightarrow> string" where
  "ascii_lower s =
     map (\<lambda>c. let k = (of_char c :: nat) in if 65 \<le> k \<and> k \<le> 90 then char_of (k + 32) else c) s"

definition ascii_space :: "char \<Rightarrow> bool" where
  "ascii_space c = (let k = (of_char c :: nat) in (9 \<le> k \<and> k \<le> 13) \<or> (28 \<le> k \<and> k \<le> 32))"

definition ascii_strip :: "string \<Rightarrow> string" where
  "ascii_strip s = rev (dropWhile ascii_space (rev (dropWhile ascii_space s)))"

definition sample_df :: dataframe where
  "sample_df =
     \<lparr>columns = [JString ''question''],
      rows = [[(JString ''question'', JString ''2+2?'')], [(JString ''question'', JString ''3+3?'')]]\<rparr>"

definition sample_answer :: string where
  \<open>sample_answer = ''{"primary_category": "math", "secondary_category": "arithmetic"}''\<close>

definition sample_loads :: "string \<Rightarrow> exn + json" where
  "sample_loads s =
     (if s = sample_answer
      then Inr (JObject [(''primary_category'', JString ''math''),
                         (''secondary_category'', JString ''arithmetic'')])
      else Inl JSONDecodeError)"

definition sample_externals :: "string externals" where
  "sample_externals =
     \<lparr>QuestionCategoryPrompt = Inr (),
      LocalModelGenerator = (\<lambda>cfg. Inr ''local generator''),
      APIGenerator_aisuite = (\<lambda>cfg. Inr ''aisuite generator''),
      APIGenerator_request = (\<lambda>cfg. Inr ''request generator''),
      generate_text_from_input = (\<lambda>g prompts. Inr [''no json here'', sample_answer]),
      question_synthesis_prompt = (\<lambda>cell. Inr '' Classify the question. ''),
      read_json = (\<lambda>f. Inr sample_df),
      json_loads = sample_loads,
      at_rejects = (\<lambda>df idx col v. None),
      find_label = (\<lambda>key labels. None),
      str_lower = ascii_lower,
      str_strip = ascii_strip,
      makedirs = (\<lambda>d. None),
      to_json = (\<lambda>f df. None)\<rparr>"

definition broken_prompts :: "string externals" where
  "broken_prompts = sample_externals\<lparr>QuestionCategoryPrompt := Inl (ExternalError ''no template'')\<rparr>"

definition sample_config :: "json \<Rightarrow> string \<Rightarrow> config" where
  "sample_config generator_type outk =
     [(''input_file'', JString ''in.jsonl''), (''output_file'', JString ''out/result.jsonl''),
      (''generator_type'', generator_type), (''output_key'', JString outk)]"

definition sample_classifier :: "string \<Rightarrow> string classifier" where
  "sample_classifier outk =
     \<lparr>config = sample_config (JString ''local'') outk, input_file = JString ''in.jsonl'',
      output_file = JString ''out/result.jsonl'', input_key = JString ''question'',
      output_key = JString outk, model = ''local generator''\<rparr>"

section \<open>Properties of models/model.py\<close>

subsection \<open>The streamed-event decoder\<close>

lemma data_not_finish: "prefix ''data: '' l \<Longrightarrow> \<not> prefix ''event: finish'' l"
  by (cases l) auto

lemma extract_loop_on:
  "extract_loop lines True acc =
     acc @ map (drop 6) (filter (\<lambda>l. prefix ''data: '' l \<and> length (drop 6 l) > 0) lines)"
  by (induction lines arbitrary: acc) (auto dest: data_not_finish)

lemma extract_loop_off:
  "extract_loop lines False acc =
     acc @ map (drop 6) (filter (\<lambda>l. prefix ''data: '' l \<and> length (drop 6 l) > 0)
       (drop 1 (dropWhile (\<lambda>l. \<not> prefix ''event: finish'' l) lines)))"
  by (induction lines arbitrary: acc) (auto simp: extract_loop_on)

text \<open>
  Claim C5, as the code has it. \<^verbatim>\<open>extract_data\<close> starts extracting after the first line that
  starts with \<^verbatim>\<open>event: finish\<close> (the test is \<^verbatim>\<open>startswith\<close>, not equality): its result
  is, in order, the payloads of the later lines that start with \<^verbatim>\<open>data: \<close> and have a
  non-empty payload. On the input of the specification it returns \<^verbatim>\<open>["abc", "def"]\<close>, and
  on an input in which no line starts with \<^verbatim>\<open>event: finish\<close> it returns the empty list.
\<close>

theorem extract_data_after_finish:
  "extract_data text =
     map (drop 6) (filter (\<lambda>l. prefix ''data: '' l \<and> length (drop 6 l) > 0)
        (drop 1 (dropWhile (\<lambda>l. \<not> prefix ''event: finish'' l) (str_split text NL))))
   \<and> extract_data ''event: finish\<newline>data: abc\<newline>data: \<newline>data: def'' = [''abc'', ''def'']
   \<and> ((\<forall>l \<in> set (str_split text NL). \<not> prefix ''event: finish'' l) \<longrightarrow> extract_data text = [])"
proof -
  have a: "extract_data text =
     map (drop 6) (filter (\<lambda>l. prefix ''data: '' l \<and> length (drop 6 l) > 0)
        (drop 1 (dropWhile (\<lambda>l. \<not> prefix ''event: finish'' l) (str_split text NL))))"
    unfolding extract_data_def extract_loop_off by simp
  have b: "extract_data ''event: finish\<newline>data: abc\<newline>data: \<newline>data: def'' = [''abc'', ''def'']"
    by (simp add: extract_data_def str_split_def NL_def)
  have c: "(\<forall>l \<in> set (str_split text NL). \<not> prefix ''event: finish'' l) \<longrightarrow> extract_data text = []"
  proof
    assume h: "\<forall>l \<in> set (str_split text NL). \<not> prefix ''event: finish'' l"
    then have "dropWhile (\<lambda>l. \<not> prefix ''event: finish'' l) (str_split text NL) = []"
      by simp
    then show "extract_data text = []" by (simp add: a del: dropWhile_eq_Nil_conv)
  qed
  show ?thesis using a b c by blast
qed

theorem extract_data_after_finish_witness:
  "str_split ''event: start\<newline>data: abc'' NL = [''event: start'', ''data: abc'']
   \<and> \<not> prefix ''event: finish'' ''event: start''
   \<and> \<not> prefix ''event: finish'' ''data: abc''
   \<and> extract_data ''event: start\<newline>data: abc'' = []"
  using extract_data_after_finish[of "''event: start\<newline>data: abc''"]
  by (simp add: str_split_def NL_def)

text \<open>
  The claim C5 as stated fails: no line of this input is equal to \<^verbatim>\<open>event: finish\<close>, and
  still the result is not empty.
\<close>

theorem extract_data_finish_prefix_counterexample:
  "''event: finish'' \<notin> set (str_split ''event: finished\<newline>data: abc'' NL)
   \<and> extract_data ''event: finished\<newline>data: abc'' \<noteq> []"
  by (simp add: extract_data_def str_split_def NL_def)

subsection \<open>The delimited-field decoder\<close>

lemma split_from_not_Nil: "split_from sep cur s \<noteq> []"
  by (induction sep cur s rule: split_from.induct) auto

lemma split_from_absent:
  "\<not> sublist sep s \<Longrightarrow> split_from sep cur s = [cur @ s]"
proof (induction s arbitrary: cur)
  case Nil
  then show ?case by simp
next
  case (Cons c cs)
  have np: "\<not> prefix sep (c # cs)"
    using Cons.prems by (meson prefix_imp_sublist)
  have ns: "\<not> sublist sep cs"
    using Cons.prems by (meson sublist_Cons_right)
  show ?case using np Cons.IH[OF ns, of "cur @ [c]"] by simp
qed

lemma split_from_present:
  "sep \<noteq> [] \<Longrightarrow> sublist sep s \<Longrightarrow> 2 \<le> length (split_from sep cur s)"
proof (induction s arbitrary: cur)
  case Nil
  then show ?case by simp
next
  case (Cons c cs)
  show ?case
  proof (cases "prefix sep (c # cs)")
    case True
    then show ?thesis using Cons.prems(1) split_from_not_Nil[of sep "[]" "drop (length sep) (c # cs)"]
      by (cases "split_from sep [] (drop (length sep) (c # cs))") auto
  next
    case False
    then have "sublist sep cs" using Cons.prems(2)
      by (metis sublist_Cons_right)
    then show ?thesis using False Cons.IH[OF Cons.prems(1), of "cur @ [c]"] by simp
  qed
qed

lemma split_from_pieces:
  "x \<in> set (split_from sep cur s) \<Longrightarrow> sublist x (cur @ s)"
proof (induction sep cur s rule: split_from.induct)
  case (1 sep cur)
  then show ?case by simp
next
  case (2 sep cur c cs)
  show ?case
  proof (cases "sep \<noteq> [] \<and> prefix sep (c # cs)")
    case True
    then have "x = cur \<or> x \<in> set (split_from sep [] (drop (length sep) (c # cs)))"
      using 2(3) by auto
    then show ?thesis
    proof
      assume "x = cur" then show ?thesis by (simp add: prefix_imp_sublist)
    next
      assume "x \<in> set (split_from sep [] (drop (length sep) (c # cs)))"
      then have "sublist x (drop (length sep) (c # cs))" using 2(1)[OF True] by simp
      then have "sublist x (c # cs)"
        by (metis sublist_order.order.trans suffix_drop suffix_imp_sublist)
      then show ?thesis by (meson sublist_append_leftI sublist_order.order.trans sublist_order.order_refl sublist_appendI)
    qed
  next
    case False
    then have "x \<in> set (split_from sep (cur @ [c]) cs)" using 2(3) by auto
    then show ?thesis using 2(2)[OF False] by simp
  qed
qed

lemma str_split_not_Nil: "str_split s sep \<noteq> []"
  by (simp add: str_split_def split_from_not_Nil)

lemma str_split_absent: "\<not> sublist sep s \<Longrightarrow> str_split s sep = [s]"
  by (simp add: str_split_def split_from_absent)

lemma str_split_present: "sep \<noteq> [] \<Longrightarrow> sublist sep s \<Longrightarrow> 2 \<le> length (str_split s sep)"
  by (simp add: str_split_def split_from_present)

lemma str_split_pieces: "x \<in> set (str_split s sep) \<Longrightarrow> sublist x s"
  using split_from_pieces[of x sep "[]" s] by (simp add: str_split_def)

lemma content_marker_not_Nil: "content_marker \<noteq> []"
  by (simp add: content_marker_def)

lemma decode_GLM4_no_role_marker:
  assumes "\<not> sublist role_marker reply"
  shows "decode_GLM4 reply w =
     (if sublist content_marker reply
      then (str_split (str_split reply content_marker ! 1) NL, w)
      else ([], print (DecodeFailed IndexError) w))"
proof (cases "sublist content_marker reply")
  case True
  have len: "1 < length (str_split reply content_marker)"
    using str_split_present[OF content_marker_not_Nil True] by simp
  then have "str_split reply content_marker ! 1 \<in> set (str_split reply content_marker)"
    by simp
  then have "sublist (str_split reply content_marker ! 1) reply"
    by (rule str_split_pieces)
  then have "\<not> sublist role_marker (str_split reply content_marker ! 1)"
    using assms by (meson sublist_order.order.trans)
  then have "str_split (str_split reply content_marker ! 1) role_marker = [str_split reply content_marker ! 1]"
    by (rule str_split_absent)
  then show ?thesis using True len by (simp add: decode_GLM4_def py_index_def)
next
  case False
  then have "str_split reply content_marker = [reply]" by (rule str_split_absent)
  then show ?thesis using False by (simp add: decode_GLM4_def py_index_def)
qed

lemma decode_same: "decode_GLM3 reply w = decode_GLM4 reply w"
  by (simp add: decode_GLM3_def decode_GLM4_def)

text \<open>
  What the two branches do with a body that lacks the closing marker, whichever attempt
  of the retry loop obtained it. Without the opening marker the index \<^verbatim>\<open>[1]\<close> raises, the
  handler prints and the result is empty. With the opening marker nothing raises and
  nothing is printed: the result is the text behind the first opening marker (up to the
  next one), split at newlines.
\<close>

lemma get_glm_reply_without_role_marker:
  assumes "mname \<in> {''GLM4'', ''GLM3''}"
    and "post_retry http URL headers (branch_payload mname query temperature max_tokens seed) 3 w
           = (Some (HttpResponse (Some reply)), w1)"
    and "\<not> sublist role_marker reply"
  shows "get_glm_reply http query mname temperature max_tokens seed w =
           (if sublist content_marker reply
            then (Inr (str_split (str_split reply content_marker ! 1) NL), w1)
            else (Inr [], print (DecodeFailed IndexError) w1))"
  using assms(1,2) unfolding get_glm_reply_def
  by (auto simp: branch_payload_def decode_same decode_GLM4_no_role_marker[OF assms(3)])

text \<open>
  Claim C1 does not hold of the code. The body below is a chat completion in which the
  role stands before the content: it has the opening marker and not the closing one. The
  \<^verbatim>\<open>try\<close> block of lines 221 to 225 is there to turn a body it cannot decode into the
  empty list, and it does so when the opening marker is missing; but
  \<^verbatim>\<open>.split(...)[0]\<close> cannot raise, so the missing closing marker is not noticed. Both
  branches return the tail of the body behind the opening marker, JSON brackets
  included, and print no diagnostic.
\<close>

theorem delimited_reply_missing_role_marker:
  \<open>\<not> sublist role_marker ''{"choices":[{"message":{"role":"assistant","content":"hello"}}]}''
   \<and> get_glm_reply (gateway_replying ''{"choices":[{"message":{"role":"assistant","content":"hello"}}]}'')
         ''q'' ''GLM4'' 0.7 1000 175 init_world =
       (Inr [''hello"}}]}''],
        \<lparr>completion_tokens = 0, prompt_tokens = 0,
         trace = [Post URL headers (payload_GLM4 ''q'' 0.7 1000)
                   (Inr (HttpResponse (Some ''{"choices":[{"message":{"role":"assistant","content":"hello"}}]}'')))]\<rparr>)
   \<and> get_glm_reply (gateway_replying ''{"choices":[{"message":{"role":"assistant","content":"hello"}}]}'')
         ''q'' ''GLM3'' 0.7 1000 175 init_world =
       (Inr [''hello"}}]}''],
        \<lparr>completion_tokens = 0, prompt_tokens = 0,
         trace = [Post URL headers (payload_GLM3 ''q'' 0.7 1000)
                   (Inr (HttpResponse (Some ''{"choices":[{"message":{"role":"assistant","content":"hello"}}]}'')))]\<rparr>)\<close>
  by (simp add: get_glm_reply_def gateway_replying_def requests_post_def decode_GLM4_def
      decode_GLM3_def py_index_def content_marker_def role_marker_def str_split_def NL_def
      sublist_code eval_nat_numeral Let_def init_world_def n_posts_def)

subsection \<open>The bounded retry around the gateway\<close>

lemma post_retry_all_fail:
  assumes "\<forall>i url h p. \<exists>e. http i url h p = Inl e"
  shows "\<exists>es. length es = tol \<and>
     post_retry http url hdrs payload tol w =
       (None, w\<lparr>trace := trace w @ concat (map (\<lambda>e. [Post url hdrs payload (Inl e), Print (ProxyRetry e)]) es)\<rparr>)"
proof (induction tol arbitrary: w)
  case 0
  show ?case by simp
next
  case (Suc tol)
  obtain e where e: "http (n_posts w) url hdrs payload = Inl e"
    using assms by blast
  let ?w1 = "print (ProxyRetry e) (w\<lparr>trace := trace w @ [Post url hdrs payload (Inl e)]\<rparr>)"
  obtain es where es: "length es = tol"
    "post_retry http url hdrs payload tol ?w1 =
       (None, ?w1\<lparr>trace := trace ?w1 @ concat (map (\<lambda>e. [Post url hdrs payload (Inl e), Print (ProxyRetry e)]) es)\<rparr>)"
    using Suc.IH[of ?w1] by blast
  have "post_retry http url hdrs payload (Suc tol) w =
       (None, w\<lparr>trace := trace w @ concat (map (\<lambda>e. [Post url hdrs payload (Inl e), Print (ProxyRetry e)]) (e # es))\<rparr>)"
    using e es(2) by (simp add: requests_post_def print_def Let_def)
  then show ?case using es(1) by (metis length_Cons)
qed

lemma post_retry_3_fail:
  assumes "\<forall>i url h p. \<exists>e. http i url h p = Inl e"
  shows "\<exists>e0 e1 e2. post_retry http url hdrs payload 3 w =
       (None, w\<lparr>trace := trace w @ [Post url hdrs payload (Inl e0), Print (ProxyRetry e0),
           Post url hdrs payload (Inl e1), Print (ProxyRetry e1),
           Post url hdrs payload (Inl e2), Print (ProxyRetry e2)]\<rparr>)"
proof -
  obtain es where es: "length es = 3"
    "post_retry http url hdrs payload 3 w =
       (None, w\<lparr>trace := trace w @ concat (map (\<lambda>e. [Post url hdrs payload (Inl e), Print (ProxyRetry e)]) es)\<rparr>)"
    using post_retry_all_fail[OF assms, of 3 url hdrs payload w] by blast
  obtain e0 e1 e2 where "es = [e0, e1, e2]"
    using es(1) by (auto simp: length_Suc_conv numeral_3_eq_3)
  then show ?thesis using es(2) by auto
qed

text \<open>
  Claim C3. In each of the three branches that post to the gateway, when every post
  raises, \<^verbatim>\<open>get_glm_reply\<close> returns the empty list and raises nothing, and what it did is
  exactly this: three posts, each followed at once by its retry diagnostic and by nothing
  else (no sleep between the attempts), and then the final diagnostic.
\<close>

theorem get_glm_reply_gateway_down:
  assumes "mname \<in> {''ChatGLM2'', ''GLM4'', ''GLM3''}"
    and "\<forall>i url h p. \<exists>e. http i url h p = Inl e"
  shows "\<exists>e0 e1 e2.
     get_glm_reply http query mname temperature max_tokens seed w =
       (Inr [], w\<lparr>trace := trace w @
          [Post URL headers (branch_payload mname query temperature max_tokens seed) (Inl e0), Print (ProxyRetry e0),
           Post URL headers (branch_payload mname query temperature max_tokens seed) (Inl e1), Print (ProxyRetry e1),
           Post URL headers (branch_payload mname query temperature max_tokens seed) (Inl e2), Print (ProxyRetry e2),
           Print ProxyFailed]\<rparr>)"
proof -
  obtain e0 e1 e2 where r: "post_retry http URL headers (branch_payload mname query temperature max_tokens seed) 3 w =
       (None, w\<lparr>trace := trace w @ [Post URL headers (branch_payload mname query temperature max_tokens seed) (Inl e0), Print (ProxyRetry e0),
           Post URL headers (branch_payload mname query temperature max_tokens seed) (Inl e1), Print (ProxyRetry e1),
           Post URL headers (branch_payload mname query temperature max_tokens seed) (Inl e2), Print (ProxyRetry e2)]\<rparr>)"
    using post_retry_3_fail[OF assms(2)] by blast
  have "get_glm_reply http query mname temperature max_tokens seed w =
       (Inr [], w\<lparr>trace := trace w @
          [Post URL headers (branch_payload mname query temperature max_tokens seed) (Inl e0), Print (ProxyRetry e0),
           Post URL headers (branch_payload mname query temperature max_tokens seed) (Inl e1), Print (ProxyRetry e1),
           Post URL headers (branch_payload mname query temperature max_tokens seed) (Inl e2), Print (ProxyRetry e2),
           Print ProxyFailed]\<rparr>)"
    using assms(1) r unfolding get_glm_reply_def branch_payload_def
    by (auto simp: print_def)
  then show ?thesis by blast
qed


theorem get_glm_reply_gateway_down_witness:
  "''GLM4'' \<in> {''ChatGLM2'', ''GLM4'', ''GLM3''}
   \<and> gateway_down 0 URL headers (payload_GLM4 ''q'' 0.7 1000) = Inl (ExternalError ''connection refused'')
   \<and> fst (get_glm_reply gateway_down ''q'' ''GLM4'' 0.7 1000 175 init_world) = Inr []
   \<and> n_posts (snd (get_glm_reply gateway_down ''q'' ''GLM4'' 0.7 1000 175 init_world)) = 3"
proof -
  have h1: "''GLM4'' \<in> {''ChatGLM2'', ''GLM4'', ''GLM3''}" by simp
  have h2: "\<forall>i url h p. \<exists>e. gateway_down i url h p = Inl e"
    by (simp add: gateway_down_def)
  obtain e0 e1 e2 where r: "get_glm_reply gateway_down ''q'' ''GLM4'' 0.7 1000 175 init_world =
       (Inr [], init_world\<lparr>trace := trace init_world @
          [Post URL headers (branch_payload ''GLM4'' ''q'' 0.7 1000 175) (Inl e0), Print (ProxyRetry e0),
           Post URL headers (branch_payload ''GLM4'' ''q'' 0.7 1000 175) (Inl e1), Print (ProxyRetry e1),
           Post URL headers (branch_payload ''GLM4'' ''q'' 0.7 1000 175) (Inl e2), Print (ProxyRetry e2),
           Print ProxyFailed]\<rparr>)"
    using get_glm_reply_gateway_down[OF h1 h2, of "''q''" "0.7" 1000 175 init_world] by blast
  show ?thesis unfolding r by (simp add: gateway_down_def n_posts_def init_world_def)
qed

subsection \<open>The bounded retry of gpt\<close>

declare chatgpt_loop.simps [simp del]

lemma gpt_loop_fail:
  "chatgpt api messages mname temperature max_tokens n stop w = (Inl e, w1) \<Longrightarrow>
   gpt_loop api messages mname temperature max_tokens n stop (Suc cnt) w =
   gpt_loop api messages mname temperature max_tokens n stop cnt (print (GptError e) w1)"
  by simp

lemma gpt_loop_success:
  "chatgpt api messages mname temperature max_tokens n stop w = (Inr (s # outs), w1) \<Longrightarrow>
   gpt_loop api messages mname temperature max_tokens n stop (Suc cnt) w = (str_split s NL, w1)"
  by (simp add: py_index_def)

text \<open>
  Claim C4. \<open>w0\<close> is the state in which \<^verbatim>\<open>gpt\<close> is called, and \<open>w1\<close>, ..., \<open>w5\<close> are the
  states in which its successive calls of \<^verbatim>\<open>chatgpt\<close> end, each failed attempt being followed
  by the diagnostic of line 107. When the first four attempts raise and the fifth returns
  a list with a first element \<open>s\<close>, \<^verbatim>\<open>gpt\<close> returns \<open>s\<close> split at newlines and ends in \<open>w5\<close>:
  nothing happens after the successful attempt. When the fifth attempt raises as well,
  \<^verbatim>\<open>gpt\<close> returns the empty list, after the fifth diagnostic and no sixth attempt.
\<close>

theorem gpt_fifth_attempt:
  "(chatgpt api (user_message prompt) mname temperature max_tokens n stop w0 = (Inl e1, w1) \<and>
    chatgpt api (user_message prompt) mname temperature max_tokens n stop (print (GptError e1) w1) = (Inl e2, w2) \<and>
    chatgpt api (user_message prompt) mname temperature max_tokens n stop (print (GptError e2) w2) = (Inl e3, w3) \<and>
    chatgpt api (user_message prompt) mname temperature max_tokens n stop (print (GptError e3) w3) = (Inl e4, w4)
    \<longrightarrow>
      (chatgpt api (user_message prompt) mname temperature max_tokens n stop (print (GptError e4) w4) = (Inr (s # outs), w5)
         \<longrightarrow> gpt api prompt mname temperature max_tokens n stop w0 = (str_split s NL, w5)) \<and>
      (chatgpt api (user_message prompt) mname temperature max_tokens n stop (print (GptError e4) w4) = (Inl e5, w5)
         \<longrightarrow> gpt api prompt mname temperature max_tokens n stop w0 = ([], print (GptError e5) w5)))"
proof -
  have five: "(5::nat) = Suc (Suc (Suc (Suc (Suc 0))))" by simp
  show ?thesis
    unfolding gpt_def five
    by (auto simp only: gpt_loop_fail gpt_loop_success gpt_loop.simps(1))
qed


theorem gpt_fifth_attempt_witness:
  "gpt flaky_api ''q'' ''gpt-3.5-turbo'' 0.7 1000 1 JNull init_world =
     ([''one'', ''two''],
      \<lparr>completion_tokens = 7, prompt_tokens = 3,
       trace =
        [Completion \<lparr>rq_model = ''gpt-3.5-turbo'', rq_messages = user_message ''q'', rq_temperature = 0.7,
                     rq_max_tokens = 1000, rq_n = 1, rq_stop = JNull\<rparr> (Inl (ExternalError ''timeout'')),
         Print (GptError (ExternalError ''timeout'')),
         Completion \<lparr>rq_model = ''gpt-3.5-turbo'', rq_messages = user_message ''q'', rq_temperature = 0.7,
                     rq_max_tokens = 1000, rq_n = 1, rq_stop = JNull\<rparr> (Inl (ExternalError ''timeout'')),
         Print (GptError (ExternalError ''timeout'')),
         Completion \<lparr>rq_model = ''gpt-3.5-turbo'', rq_messages = user_message ''q'', rq_temperature = 0.7,
                     rq_max_tokens = 1000, rq_n = 1, rq_stop = JNull\<rparr> (Inl (ExternalError ''timeout'')),
         Print (GptError (ExternalError ''timeout'')),
         Completion \<lparr>rq_model = ''gpt-3.5-turbo'', rq_messages = user_message ''q'', rq_temperature = 0.7,
                     rq_max_tokens = 1000, rq_n = 1, rq_stop = JNull\<rparr> (Inl (ExternalError ''timeout'')),
         Print (GptError (ExternalError ''timeout'')),
         Completion \<lparr>rq_model = ''gpt-3.5-turbo'', rq_messages = user_message ''q'', rq_temperature = 0.7,
                     rq_max_tokens = 1000, rq_n = 1, rq_stop = JNull\<rparr>
           (Inr \<lparr>choices = [''one\<newline>two''], usage_completion_tokens = 7, usage_prompt_tokens = 3\<rparr>)]\<rparr>)"
proof -
  let ?rq = "\<lparr>rq_model = ''gpt-3.5-turbo'', rq_messages = user_message ''q'', rq_temperature = 0.7,
                     rq_max_tokens = 1000, rq_n = 1, rq_stop = JNull\<rparr>"
  let ?f = "Completion ?rq (Inl (ExternalError ''timeout''))"
  let ?p = "Print (GptError (ExternalError ''timeout''))"
  let ?w1 = "\<lparr>completion_tokens = 0, prompt_tokens = 0, trace = [?f]\<rparr>"
  let ?w2 = "\<lparr>completion_tokens = 0, prompt_tokens = 0, trace = [?f, ?p, ?f]\<rparr>"
  let ?w3 = "\<lparr>completion_tokens = 0, prompt_tokens = 0, trace = [?f, ?p, ?f, ?p, ?f]\<rparr>"
  let ?w4 = "\<lparr>completion_tokens = 0, prompt_tokens = 0, trace = [?f, ?p, ?f, ?p, ?f, ?p, ?f]\<rparr>"
  let ?w5 = "\<lparr>completion_tokens = 7, prompt_tokens = 3,
       trace = [?f, ?p, ?f, ?p, ?f, ?p, ?f, ?p,
         Completion ?rq (Inr \<lparr>choices = [''one\<newline>two''], usage_completion_tokens = 7, usage_prompt_tokens = 3\<rparr>)]\<rparr>"
  note ev = chatgpt_def chatgpt_loop.simps completions_with_backoff_def Let_def n_completions_def
      flaky_api_def print_def init_world_def
  have h1: "chatgpt flaky_api (user_message ''q'') ''gpt-3.5-turbo'' 0.7 1000 1 JNull init_world
      = (Inl (ExternalError ''timeout''), ?w1)" by (simp add: ev)
  have h2: "chatgpt flaky_api (user_message ''q'') ''gpt-3.5-turbo'' 0.7 1000 1 JNull
      (print (GptError (ExternalError ''timeout'')) ?w1) = (Inl (ExternalError ''timeout''), ?w2)" by (simp add: ev)
  have h3: "chatgpt flaky_api (user_message ''q'') ''gpt-3.5-turbo'' 0.7 1000 1 JNull
      (print (GptError (ExternalError ''timeout'')) ?w2) = (Inl (ExternalError ''timeout''), ?w3)" by (simp add: ev)
  have h4: "chatgpt flaky_api (user_message ''q'') ''gpt-3.5-turbo'' 0.7 1000 1 JNull
      (print (GptError (ExternalError ''timeout'')) ?w3) = (Inl (ExternalError ''timeout''), ?w4)" by (simp add: ev)
  have h5: "chatgpt flaky_api (user_message ''q'') ''gpt-3.5-turbo'' 0.7 1000 1 JNull
      (print (GptError (ExternalError ''timeout'')) ?w4) = (Inr [''one\<newline>two''], ?w5)" by (simp add: ev)
  have s: "str_split ''one\<newline>two'' NL = [''one'', ''two'']"
    by (simp add: str_split_def NL_def)
  show ?thesis
    using gpt_fifth_attempt[of flaky_api "''q''" "''gpt-3.5-turbo''" "0.7" 1000 1 JNull init_world
        "ExternalError ''timeout''" ?w1 "ExternalError ''timeout''" ?w2 "ExternalError ''timeout''" ?w3
        "ExternalError ''timeout''" ?w4 "''one\<newline>two''" "[]" ?w5] h1 h2 h3 h4 h5 s
    by simp
qed

subsection \<open>The batches of chatgpt\<close>

lemma n_calls_div: "n_calls n = nat ((n + 19) div 20)"
proof -
  have "\<lceil>real_of_int n / 20\<rceil> = - (- n div 20)"
    using ceiling_divide_eq_div[of n 20] by simp
  also have "\<dots> = (n + 19) div 20" by linarith
  finally show ?thesis by (simp add: n_calls_def)
qed

lemma n_calls_nonpos: "n \<le> 0 \<Longrightarrow> n_calls n = 0"
  unfolding n_calls_div by simp

lemma n_calls_step: "0 < n \<Longrightarrow> n_calls n = Suc (n_calls (n - min n 20))"
proof (cases "n \<le> 20")
  case True
  assume "0 < n"
  then have "(n + 19) div 20 = 1" using True by linarith
  moreover have "n - min n 20 = 0" using True by simp
  ultimately show ?thesis unfolding n_calls_div by simp
next
  case False
  then have m: "n - min n 20 = n - 20" by simp
  have "(n + 19) div 20 = (n - 20 + 19) div 20 + 1" by linarith
  moreover have "0 \<le> (n - 20 + 19) div 20" using False by linarith
  ultimately show ?thesis unfolding n_calls_div m by simp
qed

lemma batch_step: "0 < n \<Longrightarrow> k < n_calls (n - min n 20) \<Longrightarrow>
   batch rq (n - min n 20) k = batch rq n (Suc k)"
proof -
  assume a: "0 < n" "k < n_calls (n - min n 20)"
  have "20 < n"
  proof (rule ccontr)
    assume "\<not> 20 < n"
    then have "n - min n 20 = 0" by simp
    then show False using a(2) by (simp add: n_calls_nonpos)
  qed
  then have "n - min n 20 - 20 * int k = n - 20 * int (Suc k)" by simp
  then show ?thesis by (simp add: batch_def)
qed

lemma chatgpt_loop_batches:
  assumes "\<forall>k < n_calls n. api (n_completions w + k) (batch rq n k) = Inr (res k)"
  shows "chatgpt_loop api rq n outputs w =
     (Inr (outputs @ concat (map (\<lambda>k. choices (res k)) [0..<n_calls n])),
      w\<lparr>completion_tokens := completion_tokens w + sum_list (map (\<lambda>k. usage_completion_tokens (res k)) [0..<n_calls n]),
        prompt_tokens := prompt_tokens w + sum_list (map (\<lambda>k. usage_prompt_tokens (res k)) [0..<n_calls n]),
        trace := trace w @ map (\<lambda>k. Completion (batch rq n k) (Inr (res k))) [0..<n_calls n]\<rparr>)"
  using assms
proof (induction "n_calls n" arbitrary: n outputs w res)
  case 0
  then have "n \<le> 0" using n_calls_step[of n] by (cases "0 < n") simp_all
  then show ?case using 0 by (simp add: chatgpt_loop.simps[of api rq n])
next
  case (Suc K)
  have pos: "0 < n" using Suc.hyps(2) n_calls_nonpos[of n] by (cases "0 < n") simp_all
  let ?n' = "n - min n 20"
  have K: "K = n_calls ?n'" using Suc.hyps(2) n_calls_step[OF pos] by simp
  have first: "api (n_completions w) (batch rq n 0) = Inr (res 0)"
    using Suc.prems Suc.hyps(2) by (metis add.right_neutral zero_less_Suc)
  have b0: "batch rq n 0 = rq\<lparr>rq_n := min n 20\<rparr>" by (simp add: batch_def)
  let ?w1 = "w\<lparr>trace := trace w @ [Completion (batch rq n 0) (Inr (res 0))]\<rparr>"
  let ?w2 = "?w1\<lparr>completion_tokens := completion_tokens ?w1 + usage_completion_tokens (res 0),
                 prompt_tokens := prompt_tokens ?w1 + usage_prompt_tokens (res 0)\<rparr>"
  have nc: "n_completions ?w2 = Suc (n_completions w)" by (simp add: n_completions_def)
  have rest: "\<forall>k < n_calls ?n'. api (n_completions ?w2 + k) (batch rq ?n' k) = Inr (res (Suc k))"
  proof (intro allI impI)
    fix k assume k: "k < n_calls ?n'"
    then have "Suc k < n_calls n" using K Suc.hyps(2) by simp
    then have "api (n_completions w + Suc k) (batch rq n (Suc k)) = Inr (res (Suc k))"
      using Suc.prems by blast
    then show "api (n_completions ?w2 + k) (batch rq ?n' k) = Inr (res (Suc k))"
      using batch_step[OF pos k] nc by simp
  qed
  have step: "chatgpt_loop api rq n outputs w = chatgpt_loop api rq ?n' (outputs @ choices (res 0)) ?w2"
    using pos first b0 by (simp add: chatgpt_loop.simps[of api rq n] completions_with_backoff_def Let_def)
  have ih: "chatgpt_loop api rq ?n' (outputs @ choices (res 0)) ?w2 =
     (Inr ((outputs @ choices (res 0)) @ concat (map (\<lambda>k. choices (res (Suc k))) [0..<n_calls ?n'])),
      ?w2\<lparr>completion_tokens := completion_tokens ?w2 + sum_list (map (\<lambda>k. usage_completion_tokens (res (Suc k))) [0..<n_calls ?n']),
        prompt_tokens := prompt_tokens ?w2 + sum_list (map (\<lambda>k. usage_prompt_tokens (res (Suc k))) [0..<n_calls ?n']),
        trace := trace ?w2 @ map (\<lambda>k. Completion (batch rq ?n' k) (Inr (res (Suc k)))) [0..<n_calls ?n']\<rparr>)"
    using Suc.hyps(1)[OF K rest] .
  have tr: "map (\<lambda>k. Completion (batch rq ?n' k) (Inr (res (Suc k)))) [0..<n_calls ?n']
      = map (\<lambda>k. Completion (batch rq n (Suc k)) (Inr (res (Suc k)))) [0..<n_calls ?n']"
    using batch_step[OF pos] by simp
  have upt: "[0..<n_calls n] = 0 # map Suc [0..<n_calls ?n']"
    using n_calls_step[OF pos] by (simp add: upt_conv_Cons map_Suc_upt del: upt_Suc)
  have cc: "concat (map (\<lambda>k. choices (res k)) (0 # map Suc [0..<n_calls ?n']))
      = choices (res 0) @ concat (map (\<lambda>k. choices (res (Suc k))) [0..<n_calls ?n'])"
    by (simp add: comp_def)
  have s1: "sum_list (map (\<lambda>k. usage_completion_tokens (res k)) (0 # map Suc [0..<n_calls ?n']))
      = usage_completion_tokens (res 0) + sum_list (map (\<lambda>k. usage_completion_tokens (res (Suc k))) [0..<n_calls ?n'])"
    by (simp add: comp_def)
  have s2: "sum_list (map (\<lambda>k. usage_prompt_tokens (res k)) (0 # map Suc [0..<n_calls ?n']))
      = usage_prompt_tokens (res 0) + sum_list (map (\<lambda>k. usage_prompt_tokens (res (Suc k))) [0..<n_calls ?n'])"
    by (simp add: comp_def)
  have t1: "map (\<lambda>k. Completion (batch rq n k) (Inr (res k))) (0 # map Suc [0..<n_calls ?n'])
      = Completion (batch rq n 0) (Inr (res 0)) # map (\<lambda>k. Completion (batch rq n (Suc k)) (Inr (res (Suc k)))) [0..<n_calls ?n']"
    by (simp add: comp_def)
  show ?case
    unfolding step ih tr upt cc s1 s2 t1 by simp
qed


lemma size_step: "0 < n \<Longrightarrow> k < n_calls (n - min n 20) \<Longrightarrow>
   min (n - min n 20 - 20 * int k) 20 = min (n - 20 * int (Suc k)) 20"
proof -
  assume a: "0 < n" "k < n_calls (n - min n 20)"
  have "20 < n"
  proof (rule ccontr)
    assume "\<not> 20 < n"
    then have "n - min n 20 = 0" by simp
    then show False using a(2) by (simp add: n_calls_nonpos)
  qed
  then have "n - min n 20 - 20 * int k = n - 20 * int (Suc k)" by simp
  then show ?thesis by simp
qed

lemma sum_sizes:
  "sum_list (map (\<lambda>k. nat (min (n - 20 * int k) 20)) [0..<n_calls n]) = nat n"
proof (induction "n_calls n" arbitrary: n)
  case 0
  then have "n \<le> 0" using n_calls_step[of n] by (cases "0 < n") simp_all
  then show ?case using 0 by simp
next
  case (Suc K)
  have pos: "0 < n" using Suc.hyps(2) n_calls_nonpos[of n] by (cases "0 < n") simp_all
  let ?n' = "n - min n 20"
  have K: "K = n_calls ?n'" using Suc.hyps(2) n_calls_step[OF pos] by simp
  have upt: "[0..<n_calls n] = 0 # map Suc [0..<n_calls ?n']"
    using n_calls_step[OF pos] by (simp add: upt_conv_Cons map_Suc_upt del: upt_Suc)
  have "map (\<lambda>k. nat (min (n - 20 * int (Suc k)) 20)) [0..<n_calls ?n']
      = map (\<lambda>k. nat (min (?n' - 20 * int k) 20)) [0..<n_calls ?n']"
    using size_step[OF pos] by simp
  then have "sum_list (map (\<lambda>k. nat (min (n - 20 * int (Suc k)) 20)) [0..<n_calls ?n'])
      = sum_list (map (\<lambda>k. nat (min (?n' - 20 * int k) 20)) [0..<n_calls ?n'])"
    by (rule arg_cong)
  then have "sum_list (map (\<lambda>k. nat (min (n - 20 * int (Suc k)) 20)) [0..<n_calls ?n']) = nat ?n'"
    using Suc.hyps(1)[OF K] by (simp only:)
  then have "sum_list (map (\<lambda>k. nat (min (n - 20 * int k) 20)) (0 # map Suc [0..<n_calls ?n']))
      = nat (min n 20) + nat ?n'"
    by (simp add: comp_def)
  also have "\<dots> = nat n" using pos by linarith
  finally show ?case unfolding upt .
qed

text \<open>
  Claim C6. For a sample count \<open>n \<ge> 1\<close>, when the \<open>\<lceil>n/20\<rceil>\<close> invocations of the hosted API
  that \<^verbatim>\<open>chatgpt\<close> makes all return, \<^verbatim>\<open>chatgpt\<close> makes exactly these invocations, the
  \<open>k\<close>-th asking for \<open>min(n - 20k, 20)\<close> samples, which is between 1 and 20; it returns
  the contents of the responses concatenated in the order of the requests and adds the
  reported usage to the counters; and when every response has as many choices as were
  requested, the returned list has length \<open>n\<close>.
\<close>

theorem chatgpt_batches_of_20:
  assumes "1 \<le> n"
    and "\<forall>k < n_calls n. api (n_completions w + k)
            (batch \<lparr>rq_model = mname, rq_messages = messages, rq_temperature = temperature,
                    rq_max_tokens = max_tokens, rq_n = n, rq_stop = stop\<rparr> n k) = Inr (res k)"
  shows "chatgpt api messages mname temperature max_tokens n stop w =
     (Inr (concat (map (\<lambda>k. choices (res k)) [0..<n_calls n])),
      w\<lparr>completion_tokens := completion_tokens w + sum_list (map (\<lambda>k. usage_completion_tokens (res k)) [0..<n_calls n]),
        prompt_tokens := prompt_tokens w + sum_list (map (\<lambda>k. usage_prompt_tokens (res k)) [0..<n_calls n]),
        trace := trace w @ map (\<lambda>k. Completion
            (batch \<lparr>rq_model = mname, rq_messages = messages, rq_temperature = temperature,
                    rq_max_tokens = max_tokens, rq_n = n, rq_stop = stop\<rparr> n k) (Inr (res k))) [0..<n_calls n]\<rparr>)
     \<and> (\<forall>k < n_calls n. rq_n (batch \<lparr>rq_model = mname, rq_messages = messages, rq_temperature = temperature,
                    rq_max_tokens = max_tokens, rq_n = n, rq_stop = stop\<rparr> n k) = min (n - 20 * int k) 20
            \<and> 1 \<le> min (n - 20 * int k) 20)
     \<and> ((\<forall>k < n_calls n. int (length (choices (res k))) = min (n - 20 * int k) 20) \<longrightarrow>
          int (length (concat (map (\<lambda>k. choices (res k)) [0..<n_calls n]))) = n)"
proof -
  have a: "chatgpt api messages mname temperature max_tokens n stop w =
     (Inr (concat (map (\<lambda>k. choices (res k)) [0..<n_calls n])),
      w\<lparr>completion_tokens := completion_tokens w + sum_list (map (\<lambda>k. usage_completion_tokens (res k)) [0..<n_calls n]),
        prompt_tokens := prompt_tokens w + sum_list (map (\<lambda>k. usage_prompt_tokens (res k)) [0..<n_calls n]),
        trace := trace w @ map (\<lambda>k. Completion
            (batch \<lparr>rq_model = mname, rq_messages = messages, rq_temperature = temperature,
                    rq_max_tokens = max_tokens, rq_n = n, rq_stop = stop\<rparr> n k) (Inr (res k))) [0..<n_calls n]\<rparr>)"
    unfolding chatgpt_def using chatgpt_loop_batches[OF assms(2), of "[]"] by simp
  have b: "\<forall>k < n_calls n. rq_n (batch \<lparr>rq_model = mname, rq_messages = messages, rq_temperature = temperature,
                    rq_max_tokens = max_tokens, rq_n = n, rq_stop = stop\<rparr> n k) = min (n - 20 * int k) 20
            \<and> 1 \<le> min (n - 20 * int k) 20"
  proof (intro allI impI)
    fix k assume "k < n_calls n"
    then have "int k < (n + 19) div 20" unfolding n_calls_div by linarith
    then have "20 * int k < n" by linarith
    then show "rq_n (batch \<lparr>rq_model = mname, rq_messages = messages, rq_temperature = temperature,
                    rq_max_tokens = max_tokens, rq_n = n, rq_stop = stop\<rparr> n k) = min (n - 20 * int k) 20
            \<and> 1 \<le> min (n - 20 * int k) 20"
      by (simp add: batch_def)
  qed
  have c: "(\<forall>k < n_calls n. int (length (choices (res k))) = min (n - 20 * int k) 20) \<longrightarrow>
          int (length (concat (map (\<lambda>k. choices (res k)) [0..<n_calls n]))) = n"
  proof
    assume h: "\<forall>k < n_calls n. int (length (choices (res k))) = min (n - 20 * int k) 20"
    have "map (\<lambda>k. length (choices (res k))) [0..<n_calls n]
        = map (\<lambda>k. nat (min (n - 20 * int k) 20)) [0..<n_calls n]"
    proof (rule map_cong[OF refl])
      fix k assume "k \<in> set [0..<n_calls n]"
      then have "int (length (choices (res k))) = min (n - 20 * int k) 20" using h by simp
      then show "length (choices (res k)) = nat (min (n - 20 * int k) 20)" by linarith
    qed
    then have "sum_list (map (\<lambda>k. length (choices (res k))) [0..<n_calls n])
        = sum_list (map (\<lambda>k. nat (min (n - 20 * int k) 20)) [0..<n_calls n])"
      by (rule arg_cong)
    then have "sum_list (map (\<lambda>k. length (choices (res k))) [0..<n_calls n]) = nat n"
      using sum_sizes[of n] by (simp only:)
    then have "length (concat (map (\<lambda>k. choices (res k)) [0..<n_calls n])) = nat n"
      by (simp add: length_concat comp_def)
    then show "int (length (concat (map (\<lambda>k. choices (res k)) [0..<n_calls n]))) = n"
      using assms(1) by simp
  qed
  show ?thesis using a b c by blast
qed


theorem chatgpt_batches_of_20_witness:
  "(1::int) \<le> 25 \<and> n_calls 25 = 2
   \<and> chatgpt full_api (user_message ''q'') ''gpt-4'' 0.7 1000 25 JNull init_world =
      (Inr (replicate 20 ''ok'' @ replicate 5 ''ok''),
       \<lparr>completion_tokens = 25, prompt_tokens = 6,
        trace =
         [Completion \<lparr>rq_model = ''gpt-4'', rq_messages = user_message ''q'', rq_temperature = 0.7,
                      rq_max_tokens = 1000, rq_n = 20, rq_stop = JNull\<rparr>
            (Inr \<lparr>choices = replicate 20 ''ok'', usage_completion_tokens = 20, usage_prompt_tokens = 3\<rparr>),
          Completion \<lparr>rq_model = ''gpt-4'', rq_messages = user_message ''q'', rq_temperature = 0.7,
                      rq_max_tokens = 1000, rq_n = 5, rq_stop = JNull\<rparr>
            (Inr \<lparr>choices = replicate 5 ''ok'', usage_completion_tokens = 5, usage_prompt_tokens = 3\<rparr>)]\<rparr>)"
proof -
  let ?rq = "\<lparr>rq_model = ''gpt-4'', rq_messages = user_message ''q'', rq_temperature = 0.7,
              rq_max_tokens = 1000, rq_n = 25, rq_stop = JNull\<rparr>"
  let ?res = "\<lambda>k::nat. \<lparr>choices = replicate (nat (min (25 - 20 * int k) 20)) ''ok'',
       usage_completion_tokens = min (25 - 20 * int k) 20, usage_prompt_tokens = 3\<rparr>"
  have h1: "(1::int) \<le> 25" by simp
  have nc: "n_calls 25 = 2" by (simp add: n_calls_div)
  have h2: "\<forall>k < n_calls 25. full_api (n_completions init_world + k) (batch ?rq 25 k) = Inr (?res k)"
    by (simp add: full_api_def batch_def)
  have up: "[0..<2] = [0, Suc 0]" by (simp add: upt_rec)
  show ?thesis
    using chatgpt_batches_of_20[OF h1 h2, THEN conjunct1] h1 nc
    by (simp add: nc up batch_def init_world_def)
qed


subsection \<open>The usage counters\<close>

lemma accounted_iff:
  "accounted w w' \<longleftrightarrow>
     (\<exists>evs. trace w' = trace w @ evs \<and>
        completion_tokens w' = completion_tokens w + sum_list (map reported_completion evs) \<and>
        prompt_tokens w' = prompt_tokens w + sum_list (map reported_prompt evs))"
proof
  assume a: "accounted w w'"
  then have "trace w' = trace w @ new_events w w'"
    unfolding accounted_def new_events_def by (metis append_take_drop_id)
  then show "\<exists>evs. trace w' = trace w @ evs \<and>
        completion_tokens w' = completion_tokens w + sum_list (map reported_completion evs) \<and>
        prompt_tokens w' = prompt_tokens w + sum_list (map reported_prompt evs)"
    using a unfolding accounted_def by blast
next
  assume "\<exists>evs. trace w' = trace w @ evs \<and>
        completion_tokens w' = completion_tokens w + sum_list (map reported_completion evs) \<and>
        prompt_tokens w' = prompt_tokens w + sum_list (map reported_prompt evs)"
  then show "accounted w w'"
    unfolding accounted_def new_events_def by auto
qed

lemma accounted_refl: "accounted w w"
  by (simp add: accounted_def new_events_def)

lemma accounted_trans: "accounted w w1 \<Longrightarrow> accounted w1 w2 \<Longrightarrow> accounted w w2"
  unfolding accounted_iff by (auto simp: algebra_simps)

lemma accounted_print: "accounted w (print d w)"
  unfolding accounted_iff by (simp add: print_def)

lemma accounted_completion_failed:
  "accounted w (w\<lparr>trace := trace w @ [Completion rq (Inl e)]\<rparr>)"
  unfolding accounted_iff by simp

lemma accounted_completion_ok:
  "accounted w (w\<lparr>trace := trace w @ [Completion rq (Inr res)],
       completion_tokens := completion_tokens w + usage_completion_tokens res,
       prompt_tokens := prompt_tokens w + usage_prompt_tokens res\<rparr>)"
  unfolding accounted_iff by simp

lemma accounted_post:
  "accounted w (w\<lparr>trace := trace w @ [Post url hdrs payload r]\<rparr>)"
  unfolding accounted_iff by simp

lemma chatgpt_loop_evolves: "evolves api w (snd (chatgpt_loop api rq n outputs w))"
proof (induction api rq n outputs w rule: chatgpt_loop.induct)
  case (1 api rq n outputs w)
  show ?case
  proof (cases "n > 0")
    case False
    then show ?thesis by (simp add: chatgpt_loop.simps[of api rq n] ev_refl)
  next
    case True
    show ?thesis
    proof (cases "api (n_completions w) (rq\<lparr>rq_n := min n 20\<rparr>)")
      case (Inl e)
      then show ?thesis using True
        by (simp add: chatgpt_loop.simps[of api rq n] completions_with_backoff_def Let_def
            ev_failed)
    next
      case (Inr res)
      let ?w1 = "w\<lparr>trace := trace w @ [Completion (rq\<lparr>rq_n := min n 20\<rparr>) (Inr res)]\<rparr>"
      let ?w2 = "?w1\<lparr>completion_tokens := completion_tokens ?w1 + usage_completion_tokens res,
                     prompt_tokens := prompt_tokens ?w1 + usage_prompt_tokens res\<rparr>"
      have cw: "completions_with_backoff api (rq\<lparr>rq_n := min n 20\<rparr>) w = (Inr res, ?w1)"
        using Inr by (simp add: completions_with_backoff_def Let_def)
      have ih: "evolves api ?w2 (snd (chatgpt_loop api rq (n - min n 20) (outputs @ choices res) ?w2))"
        using "1.IH"[OF True cw[symmetric] refl] .
      have a: "evolves api w ?w2" using ev_ok[where w = w and api = api and i = "n_completions w" and rq = "rq\<lparr>rq_n := min n 20\<rparr>" and res = res] Inr by simp
      have "chatgpt_loop api rq n outputs w = chatgpt_loop api rq (n - min n 20) (outputs @ choices res) ?w2"
        using True cw by (simp add: chatgpt_loop.simps[of api rq n])
      then show ?thesis using ev_trans[OF a ih] by simp
    qed
  qed
qed

lemma chatgpt_evolves:
  "evolves api w (snd (chatgpt api messages mname temperature max_tokens n stop w))"
  by (simp add: chatgpt_def chatgpt_loop_evolves)

lemma gpt_loop_evolves:
  "evolves api w (snd (gpt_loop api messages mname temperature max_tokens n stop cnt w))"
proof (induction cnt arbitrary: w)
  case 0
  show ?case by (simp add: ev_refl)
next
  case (Suc cnt)
  obtain r w1 where c: "chatgpt api messages mname temperature max_tokens n stop w = (r, w1)"
    by (cases "chatgpt api messages mname temperature max_tokens n stop w")
  have a1: "evolves api w w1" using chatgpt_evolves[where w = w and api = api and messages = messages and mname = mname and temperature = temperature and max_tokens = max_tokens and n = n and stop = stop] c by simp
  have a2: "\<And>d. evolves api w (print d w1)" using ev_trans[OF a1 ev_print] .
  have a3: "\<And>d. evolves api w (snd (gpt_loop api messages mname temperature max_tokens n stop cnt (print d w1)))"
    using ev_trans[OF a2 Suc.IH] .
  show ?case using c a1 a3 by (auto split: sum.splits)
qed

lemma post_retry_evolves:
  "evolves api w (snd (post_retry http url hdrs payload tol w))"
proof (induction tol arbitrary: w)
  case 0
  show ?case by (simp add: ev_refl)
next
  case (Suc tol)
  let ?w1 = "w\<lparr>trace := trace w @ [Post url hdrs payload (http (n_posts w) url hdrs payload)]\<rparr>"
  have a1: "evolves api w ?w1" by (rule ev_post)
  have a3: "\<And>d. evolves api w (snd (post_retry http url hdrs payload tol (print d ?w1)))"
    using ev_trans[OF ev_trans[OF a1 ev_print] Suc.IH] .
  show ?case using a1 a3 by (auto simp: requests_post_def Let_def split: sum.splits)
qed

lemma decode_GLM4_evolves: "evolves api w (snd (decode_GLM4 reply w))"
  by (auto simp: decode_GLM4_def ev_refl ev_print split: sum.splits)

lemma decode_GLM3_evolves: "evolves api w (snd (decode_GLM3 reply w))"
  by (auto simp: decode_GLM3_def ev_refl ev_print split: sum.splits)

lemma branch_evolves:
  assumes "\<And>reply w1. evolves api w1 (snd (dec reply w1))"
  shows "evolves api w (snd (case post_retry http url hdrs payload tol w of
           (None, w1) \<Rightarrow> (Inr [], print ProxyFailed w1)
         | (Some response, w1) \<Rightarrow>
             (case decoded response of
                None \<Rightarrow> (Inl UnicodeDecodeError, w1)
              | Some reply \<Rightarrow> (case dec reply w1 of (out, w2) \<Rightarrow> (Inr out, w2)))))"
proof -
  obtain r w1 where p: "post_retry http url hdrs payload tol w = (r, w1)"
    by (cases "post_retry http url hdrs payload tol w")
  have a1: "evolves api w w1" using post_retry_evolves[where w = w and http = http and url = url and hdrs = hdrs and payload = payload and tol = tol and api = api] p by simp
  show ?thesis
  proof (cases r)
    case None
    then show ?thesis using p ev_trans[OF a1 ev_print] by simp
  next
    case (Some response)
    show ?thesis
    proof (cases "decoded response")
      case None
      then show ?thesis using p Some a1 by simp
    next
      case (Some reply)
      obtain out w2 where d: "dec reply w1 = (out, w2)" by (cases "dec reply w1")
      have "evolves api w1 w2" using assms[where ?w1.0 = w1 and reply = reply] d by simp
      then show ?thesis using p \<open>r = Some response\<close> Some d ev_trans[OF a1] by simp
    qed
  qed
qed

lemma stream_branch_evolves:
  "evolves api w (snd (case post_retry http url hdrs payload tol w of
           (None, w1) \<Rightarrow> (Inr [], print ProxyFailed w1)
         | (Some response, w1) \<Rightarrow>
             (case decoded response of
                None \<Rightarrow> (Inl UnicodeDecodeError, w1)
              | Some reply \<Rightarrow> (Inr (extract_data reply), w1))))"
proof -
  obtain r w1 where p: "post_retry http url hdrs payload tol w = (r, w1)"
    by (cases "post_retry http url hdrs payload tol w")
  have a1: "evolves api w w1" using post_retry_evolves[where w = w and http = http and url = url and hdrs = hdrs and payload = payload and tol = tol and api = api] p by simp
  show ?thesis
    using p a1 ev_trans[OF a1 ev_print]
    by (auto split: option.splits)
qed

lemma get_glm_reply_evolves:
  "evolves api w (snd (get_glm_reply http query mname temperature max_tokens seed w))"
  unfolding get_glm_reply_def
  using branch_evolves[where dec = decode_GLM4 and api = api, OF decode_GLM4_evolves]
    branch_evolves[where dec = decode_GLM3 and api = api, OF decode_GLM3_evolves]
    stream_branch_evolves
  by (simp add: ev_print)

lemma exec_evolves: "evolves api w (exec api http c w)"
  by (cases c)
    (simp_all add: gpt_def gpt_loop_evolves chatgpt_evolves gpt_usage_def ev_refl
      glm_def get_glm_reply_evolves)

lemma exec_all_evolves: "evolves api w (exec_all api http cs w)"
proof (induction cs arbitrary: w)
  case Nil
  show ?case by (simp add: ev_refl)
next
  case (Cons c cs)
  show ?case using ev_trans[OF exec_evolves Cons.IH] by simp
qed


lemma evolves_accounted: "evolves api w w' \<Longrightarrow> accounted w w'"
proof (induction rule: evolves.induct)
  case (ev_refl w)
  show ?case by (rule accounted_refl)
next
  case (ev_trans w w1 w2)
  then show ?case using accounted_trans by blast
next
  case (ev_print w d)
  show ?case by (rule accounted_print)
next
  case (ev_post w url hdrs payload r)
  show ?case by (rule accounted_post)
next
  case (ev_failed w rq e)
  show ?case by (rule accounted_completion_failed)
next
  case (ev_ok i rq res w)
  show ?case using accounted_completion_ok[where w = w and res = res and rq = rq] by simp
qed

lemma evolves_grows:
  assumes "\<forall>i rq res. api i rq = Inr res \<longrightarrow>
             0 \<le> usage_completion_tokens res \<and> 0 \<le> usage_prompt_tokens res"
  shows "evolves api w w' \<Longrightarrow>
     completion_tokens w \<le> completion_tokens w' \<and> prompt_tokens w \<le> prompt_tokens w'"
proof (induction rule: evolves.induct)
  case (ev_ok i rq res w)
  then show ?case using assms by simp
qed (auto simp: print_def)

lemma evolves_without_api:
  "evolves (\<lambda>i rq. Inl e0) w w' \<Longrightarrow>
     completion_tokens w' = completion_tokens w \<and> prompt_tokens w' = prompt_tokens w"
  by (induction rule: evolves.induct) (auto simp: print_def)

lemma exec_without_api:
  "\<not> uses_hosted_api c \<Longrightarrow> exec api http c w = exec (\<lambda>i rq. Inl IndexError) http c w"
  by (cases c) simp_all

text \<open>
  Claim C2. The counters are zero at import. Whatever call is made in whatever state,
  the state it leaves is accounted for: the counters have grown by exactly the usage that
  the returned invocations of the hosted API reported during the call, and a call that
  does not reach the hosted API leaves them as they were. Hence after any sequence of
  calls from the start, each counter is the sum of the usage reported by all returned
  invocations so far. When the reported token counts are not negative, no call makes a
  counter decrease.
\<close>

theorem usage_counters:
  "completion_tokens init_world = 0 \<and> prompt_tokens init_world = 0
   \<and> accounted w (exec api http c w)
   \<and> (\<not> uses_hosted_api c \<longrightarrow>
        completion_tokens (exec api http c w) = completion_tokens w \<and>
        prompt_tokens (exec api http c w) = prompt_tokens w)
   \<and> completion_tokens (exec_all api http cs init_world)
        = sum_list (map reported_completion (trace (exec_all api http cs init_world)))
   \<and> prompt_tokens (exec_all api http cs init_world)
        = sum_list (map reported_prompt (trace (exec_all api http cs init_world)))
   \<and> ((\<forall>i rq res. api i rq = Inr res \<longrightarrow>
           0 \<le> usage_completion_tokens res \<and> 0 \<le> usage_prompt_tokens res) \<longrightarrow>
        completion_tokens w \<le> completion_tokens (exec api http c w) \<and>
        prompt_tokens w \<le> prompt_tokens (exec api http c w))"
proof -
  have a: "completion_tokens init_world = 0 \<and> prompt_tokens init_world = 0"
    by (simp add: init_world_def)
  have b: "accounted w (exec api http c w)"
    using exec_evolves by (rule evolves_accounted)
  have c: "\<not> uses_hosted_api c \<longrightarrow>
        completion_tokens (exec api http c w) = completion_tokens w \<and>
        prompt_tokens (exec api http c w) = prompt_tokens w"
  proof
    assume n: "\<not> uses_hosted_api c"
    have "evolves (\<lambda>i rq. Inl IndexError) w (exec (\<lambda>i rq. Inl IndexError) http c w)"
      by (rule exec_evolves)
    then show "completion_tokens (exec api http c w) = completion_tokens w \<and>
        prompt_tokens (exec api http c w) = prompt_tokens w"
      unfolding exec_without_api[OF n, of api] by (rule evolves_without_api)
  qed
  have "accounted init_world (exec_all api http cs init_world)"
    using exec_all_evolves by (rule evolves_accounted)
  then have d: "completion_tokens (exec_all api http cs init_world)
        = sum_list (map reported_completion (trace (exec_all api http cs init_world)))
   \<and> prompt_tokens (exec_all api http cs init_world)
        = sum_list (map reported_prompt (trace (exec_all api http cs init_world)))"
    by (simp add: accounted_def new_events_def init_world_def)
  have e: "(\<forall>i rq res. api i rq = Inr res \<longrightarrow>
           0 \<le> usage_completion_tokens res \<and> 0 \<le> usage_prompt_tokens res) \<longrightarrow>
        completion_tokens w \<le> completion_tokens (exec api http c w) \<and>
        prompt_tokens w \<le> prompt_tokens (exec api http c w)"
    using evolves_grows[OF _ exec_evolves] by blast
  show ?thesis using a b c d e by blast
qed


theorem usage_counters_witness:
  "completion_tokens (exec flaky_api gateway_down (CallGpt ''q'' ''gpt-3.5-turbo'' 0.7 1000 1 JNull) init_world) = 7
   \<and> prompt_tokens (exec flaky_api gateway_down (CallGpt ''q'' ''gpt-3.5-turbo'' 0.7 1000 1 JNull) init_world) = 3
   \<and> completion_tokens init_world
       \<le> completion_tokens (exec flaky_api gateway_down (CallGpt ''q'' ''gpt-3.5-turbo'' 0.7 1000 1 JNull) init_world)
   \<and> \<not> uses_hosted_api (CallGetGlmReply ''q'' ''GLM4'' 0.7 1000 175)
   \<and> completion_tokens (exec flaky_api gateway_down (CallGetGlmReply ''q'' ''GLM4'' 0.7 1000 175) init_world)
       = completion_tokens init_world"
proof -
  have nonneg: "\<forall>i rq res. flaky_api i rq = Inr res \<longrightarrow>
           0 \<le> usage_completion_tokens res \<and> 0 \<le> usage_prompt_tokens res"
    by (auto simp: flaky_api_def split: if_splits)
  have n: "\<not> uses_hosted_api (CallGetGlmReply ''q'' ''GLM4'' 0.7 1000 175)" by simp
  have five: "(5::nat) = Suc (Suc (Suc (Suc (Suc 0))))" by simp
  have run: "exec flaky_api gateway_down (CallGpt ''q'' ''gpt-3.5-turbo'' 0.7 1000 1 JNull) init_world
      = \<lparr>completion_tokens = 7, prompt_tokens = 3,
         trace = trace (exec flaky_api gateway_down (CallGpt ''q'' ''gpt-3.5-turbo'' 0.7 1000 1 JNull) init_world)\<rparr>"
    unfolding exec.simps gpt_def five
    by (simp add: chatgpt_def chatgpt_loop.simps completions_with_backoff_def Let_def n_completions_def
        flaky_api_def print_def init_world_def py_index_def)
  have c1: "completion_tokens (exec flaky_api gateway_down (CallGpt ''q'' ''gpt-3.5-turbo'' 0.7 1000 1 JNull) init_world) = 7"
    and c2: "prompt_tokens (exec flaky_api gateway_down (CallGpt ''q'' ''gpt-3.5-turbo'' 0.7 1000 1 JNull) init_world) = 3"
    by (subst run, simp)+
  show ?thesis
    using usage_counters[where api = flaky_api and http = gateway_down and w = init_world
        and c = "CallGpt ''q'' ''gpt-3.5-turbo'' 0.7 1000 1 JNull" and cs = "[]"]
      usage_counters[where api = flaky_api and http = gateway_down and w = init_world
        and c = "CallGetGlmReply ''q'' ''GLM4'' 0.7 1000 175" and cs = "[]"]
      nonneg n c1 c2
    by simp
qed

subsection \<open>The two delimited-field branches\<close>

lemma is_Post_anonymous: "is_Post (anonymous e) = is_Post e"
  by (cases e) simp_all

lemma n_posts_anonymous:
  assumes "map anonymous (trace w) = map anonymous (trace w')"
  shows "n_posts w = n_posts w'"
proof -
  have "\<And>tr. length (filter is_Post (map anonymous tr)) = length (filter is_Post tr)"
    by (simp add: filter_map comp_def is_Post_anonymous)
  then show ?thesis unfolding n_posts_def using assms by metis
qed

lemma post_retry_same:
  assumes "\<forall>i. http i url hdrs p = http i url hdrs p'"
    and "without_model p = without_model p'"
  shows "map anonymous (trace w) = map anonymous (trace w') \<Longrightarrow>
     fst (post_retry http url hdrs p tol w) = fst (post_retry http url hdrs p' tol w') \<and>
     map anonymous (trace (snd (post_retry http url hdrs p tol w)))
       = map anonymous (trace (snd (post_retry http url hdrs p' tol w')))"
proof (induction tol arbitrary: w w')
  case 0
  then show ?case by simp
next
  case (Suc tol)
  have n: "n_posts w = n_posts w'" using Suc.prems by (rule n_posts_anonymous)
  have r: "http (n_posts w) url hdrs p = http (n_posts w') url hdrs p'"
    using assms(1) n by simp
  show ?case
  proof (cases "http (n_posts w') url hdrs p'")
    case (Inr response)
    then show ?thesis using r Suc.prems assms(2)
      by (simp add: requests_post_def Let_def)
  next
    case (Inl e)
    let ?v = "print (ProxyRetry e) (w\<lparr>trace := trace w @ [Post url hdrs p (Inl e)]\<rparr>)"
    let ?v' = "print (ProxyRetry e) (w'\<lparr>trace := trace w' @ [Post url hdrs p' (Inl e)]\<rparr>)"
    have s: "map anonymous (trace ?v) = map anonymous (trace ?v')"
      using Suc.prems assms(2) by (simp add: print_def)
    show ?thesis using Inl r Suc.IH[OF s]
      by (simp add: requests_post_def Let_def)
  qed
qed

lemma decode_same_trace:
  "map anonymous (trace w) = map anonymous (trace w') \<Longrightarrow>
   fst (decode_GLM4 reply w) = fst (decode_GLM3 reply w') \<and>
   map anonymous (trace (snd (decode_GLM4 reply w))) = map anonymous (trace (snd (decode_GLM3 reply w')))"
  by (auto simp: decode_GLM4_def decode_GLM3_def print_def split: sum.splits)

text \<open>
  Claim C10. On every body and in every state, the decoding of the branch \<^verbatim>\<open>'GLM4'\<close> and
  that of the branch \<^verbatim>\<open>'GLM3'\<close> give the same list and print the same. The two payloads
  are equal but for their \<^verbatim>\<open>model\<close> entry. So against a gateway that answers both payloads
  alike, the two branches of \<^verbatim>\<open>get_glm_reply\<close> return the same, and their traces differ
  in the model identifier of the posted payload only.
\<close>

theorem delimited_variants_agree:
  "decode_GLM4 reply w = decode_GLM3 reply w
   \<and> without_model (payload_GLM4 query temperature max_tokens)
       = without_model (payload_GLM3 query temperature max_tokens)
   \<and> ((\<forall>i. http i URL headers (payload_GLM4 query temperature max_tokens)
             = http i URL headers (payload_GLM3 query temperature max_tokens)) \<longrightarrow>
        fst (get_glm_reply http query ''GLM4'' temperature max_tokens seed w)
          = fst (get_glm_reply http query ''GLM3'' temperature max_tokens seed w) \<and>
        map anonymous (trace (snd (get_glm_reply http query ''GLM4'' temperature max_tokens seed w)))
          = map anonymous (trace (snd (get_glm_reply http query ''GLM3'' temperature max_tokens seed w))))"
proof -
  have a: "decode_GLM4 reply w = decode_GLM3 reply w"
    by (simp add: decode_GLM4_def decode_GLM3_def)
  have b: "without_model (payload_GLM4 query temperature max_tokens)
       = without_model (payload_GLM3 query temperature max_tokens)"
    by (simp add: payload_GLM4_def payload_GLM3_def)
  have c: "(\<forall>i. http i URL headers (payload_GLM4 query temperature max_tokens)
             = http i URL headers (payload_GLM3 query temperature max_tokens)) \<longrightarrow>
        fst (get_glm_reply http query ''GLM4'' temperature max_tokens seed w)
          = fst (get_glm_reply http query ''GLM3'' temperature max_tokens seed w) \<and>
        map anonymous (trace (snd (get_glm_reply http query ''GLM4'' temperature max_tokens seed w)))
          = map anonymous (trace (snd (get_glm_reply http query ''GLM3'' temperature max_tokens seed w)))"
  proof
    assume h: "\<forall>i. http i URL headers (payload_GLM4 query temperature max_tokens)
             = http i URL headers (payload_GLM3 query temperature max_tokens)"
    let ?p4 = "post_retry http URL headers (payload_GLM4 query temperature max_tokens) 3 w"
    let ?p3 = "post_retry http URL headers (payload_GLM3 query temperature max_tokens) 3 w"
    have pr: "fst ?p4 = fst ?p3 \<and> map anonymous (trace (snd ?p4)) = map anonymous (trace (snd ?p3))"
      using post_retry_same[where http = http and url = URL and hdrs = headers
          and p = "payload_GLM4 query temperature max_tokens"
          and p' = "payload_GLM3 query temperature max_tokens" and w = w and w' = w and tol = 3] h b
      by blast
    obtain r4 w4 where p4: "?p4 = (r4, w4)" by (cases ?p4)
    obtain r3 w3 where p3: "?p3 = (r3, w3)" by (cases ?p3)
    have rr: "r4 = r3" and tt: "map anonymous (trace w4) = map anonymous (trace w3)"
      using pr p4 p3 by simp_all
    have g4: "get_glm_reply http query ''GLM4'' temperature max_tokens seed w =
      (case r4 of None \<Rightarrow> (Inr [], print ProxyFailed w4)
       | Some response \<Rightarrow> (case decoded response of None \<Rightarrow> (Inl UnicodeDecodeError, w4)
          | Some reply \<Rightarrow> (Inr (fst (decode_GLM4 reply w4)), snd (decode_GLM4 reply w4))))"
      using p4 by (simp add: get_glm_reply_def split: option.splits prod.splits)
    have g3: "get_glm_reply http query ''GLM3'' temperature max_tokens seed w =
      (case r3 of None \<Rightarrow> (Inr [], print ProxyFailed w3)
       | Some response \<Rightarrow> (case decoded response of None \<Rightarrow> (Inl UnicodeDecodeError, w3)
          | Some reply \<Rightarrow> (Inr (fst (decode_GLM3 reply w3)), snd (decode_GLM3 reply w3))))"
      using p3 by (simp add: get_glm_reply_def split: option.splits prod.splits)
    show "fst (get_glm_reply http query ''GLM4'' temperature max_tokens seed w)
          = fst (get_glm_reply http query ''GLM3'' temperature max_tokens seed w) \<and>
        map anonymous (trace (snd (get_glm_reply http query ''GLM4'' temperature max_tokens seed w)))
          = map anonymous (trace (snd (get_glm_reply http query ''GLM3'' temperature max_tokens seed w)))"
      unfolding g4 g3 using rr tt decode_same_trace[OF tt]
      by (auto simp: print_def split: option.splits)
  qed
  show ?thesis using a b c by blast
qed

theorem delimited_variants_agree_witness:
  \<open>gateway_replying ''{"content":"a\<newline>b","role":"assistant"}'' 0 URL headers (payload_GLM4 ''q'' 0.7 1000)
     = gateway_replying ''{"content":"a\<newline>b","role":"assistant"}'' 0 URL headers (payload_GLM3 ''q'' 0.7 1000)
   \<and> fst (get_glm_reply (gateway_replying ''{"content":"a\<newline>b","role":"assistant"}'') ''q'' ''GLM4'' 0.7 1000 175 init_world)
      = Inr [''a'', ''b'']
   \<and> fst (get_glm_reply (gateway_replying ''{"content":"a\<newline>b","role":"assistant"}'') ''q'' ''GLM3'' 0.7 1000 175 init_world)
      = Inr [''a'', ''b'']\<close>
proof -
  have h: \<open>\<forall>i. gateway_replying ''{"content":"a\<newline>b","role":"assistant"}'' i URL headers (payload_GLM4 ''q'' 0.7 1000)
     = gateway_replying ''{"content":"a\<newline>b","role":"assistant"}'' i URL headers (payload_GLM3 ''q'' 0.7 1000)\<close>
    by (simp add: gateway_replying_def)
  have g: \<open>fst (get_glm_reply (gateway_replying ''{"content":"a\<newline>b","role":"assistant"}'') ''q'' ''GLM4'' 0.7 1000 175 init_world)
      = Inr [''a'', ''b'']\<close>
    by (simp add: get_glm_reply_def gateway_replying_def requests_post_def decode_GLM4_def py_index_def
      content_marker_def role_marker_def str_split_def NL_def eval_nat_numeral Let_def)
  show ?thesis
    using delimited_variants_agree[where http = \<open>gateway_replying ''{"content":"a\<newline>b","role":"assistant"}''\<close>
        and query = "''q''" and temperature = "0.7" and max_tokens = 1000 and seed = 175 and w = init_world,
        THEN conjunct2, THEN conjunct2] h g
    by (simp add: gateway_replying_def)
qed


section \<open>Properties of QuestionDifficultyClassifier.py\<close>

subsection \<open>Construction\<close>

text \<open>
  Claim C8, as the code has it. The configured \<^verbatim>\<open>generator_type\<close> is lowered before it is
  compared. When it is a string whose lowered form is none of \<^verbatim>\<open>local\<close>, \<^verbatim>\<open>aisuite\<close> and
  \<^verbatim>\<open>request\<close>, or when it is not a string at all, the construction fails, and all it has
  done by then is to construct the prompt template of line 13: no generator class is
  constructed, nothing is generated and nothing is tried again. The exception is the
  one of the template's constructor when that fails; otherwise the ValueError of line 23
  when a file name is missing; otherwise the ValueError of line 41 for a string, and the
  AttributeError of \<^verbatim>\<open>.lower()\<close> for a value that is not a string.
\<close>

theorem unsupported_generator_type:
  assumes "\<forall>s. dict_get cfg ''generator_type'' (JString ''local'') = JString s \<longrightarrow>
             str_lower ext s \<notin> {''local'', ''aisuite'', ''request''}"
  shows "init_classifier ext cfg w =
     (Inl (case QuestionCategoryPrompt ext of
             Inl e \<Rightarrow> e
           | Inr prompts \<Rightarrow>
               if \<not> truthy (dict_get cfg ''input_file'' JNull) \<or> \<not> truthy (dict_get cfg ''output_file'' JNull)
               then ValueError ''Both input_file and output_file must be specified in the config.''
               else (case dict_get cfg ''generator_type'' (JString ''local'') of
                       JString s \<Rightarrow> ValueError (''Invalid generator type: '' @ str_lower ext s)
                     | _ \<Rightarrow> AttributeError)),
      w @ [Construct ''QuestionCategoryPrompt''])"
proof -
  have m: "\<And>w1. init_model ext cfg w1 =
      (Inl (case dict_get cfg ''generator_type'' (JString ''local'') of
              JString s \<Rightarrow> ValueError (''Invalid generator type: '' @ str_lower ext s)
            | _ \<Rightarrow> AttributeError), w1)"
    using assms by (cases "dict_get cfg ''generator_type'' (JString ''local'')")
      (simp_all add: init_model_def Let_def)
  show ?thesis
    by (cases "QuestionCategoryPrompt ext") (simp_all add: init_classifier_def Let_def m)
qed

theorem unsupported_generator_type_witness:
  "dict_get (sample_config (JString ''vllm'') ''category'') ''generator_type'' (JString ''local'')
     = JString ''vllm''
   \<and> str_lower sample_externals ''vllm'' \<notin> {''local'', ''aisuite'', ''request''}
   \<and> init_classifier sample_externals (sample_config (JString ''vllm'') ''category'') []
       = (Inl (ValueError ''Invalid generator type: vllm''), [Construct ''QuestionCategoryPrompt''])"
proof -
  have g: "dict_get (sample_config (JString ''vllm'') ''category'') ''generator_type'' (JString ''local'')
     = JString ''vllm''"
    by (simp add: dict_get_def sample_config_def)
  have l: "ascii_lower ''vllm'' = ''vllm''" by code_simp
  have l': "str_lower sample_externals ''vllm'' = ''vllm''"
    by (simp add: sample_externals_def l)
  have h: "\<forall>s. dict_get (sample_config (JString ''vllm'') ''category'') ''generator_type'' (JString ''local'') = JString s
        \<longrightarrow> str_lower sample_externals s \<notin> {''local'', ''aisuite'', ''request''}"
    unfolding g using l' by simp
  have f: "dict_get (sample_config (JString ''vllm'') ''category'') ''input_file'' JNull = JString ''in.jsonl''"
    "dict_get (sample_config (JString ''vllm'') ''category'') ''output_file'' JNull = JString ''out/result.jsonl''"
    by (simp_all add: dict_get_def sample_config_def)
  have q: "QuestionCategoryPrompt sample_externals = Inr ()" by (simp add: sample_externals_def)
  show ?thesis
    using unsupported_generator_type[OF h, of "[]"] g l' f q by simp
qed

text \<open>
  The claim C8 as stated fails in three ways. \<^verbatim>\<open>LOCAL\<close> is none of the three kinds as they
  are written, and the construction succeeds with the local generator. A
  \<^verbatim>\<open>generator_type\<close> that is \<^verbatim>\<open>None\<close> makes the construction fail with AttributeError, not
  with ValueError. And when the constructor of the prompt template fails, its exception
  is what the construction raises.
\<close>

theorem generator_type_counterexample:
  "''LOCAL'' \<notin> {''local'', ''aisuite'', ''request''}
   \<and> init_classifier sample_externals (sample_config (JString ''LOCAL'') ''category'') [] =
       (Inr \<lparr>config = sample_config (JString ''LOCAL'') ''category'', input_file = JString ''in.jsonl'',
             output_file = JString ''out/result.jsonl'', input_key = JString ''question'',
             output_key = JString ''category'', model = ''local generator''\<rparr>,
        [Construct ''QuestionCategoryPrompt'', Construct ''LocalModelGenerator''])
   \<and> init_classifier sample_externals (sample_config JNull ''category'') [] =
       (Inl AttributeError, [Construct ''QuestionCategoryPrompt''])
   \<and> init_classifier broken_prompts (sample_config (JString ''vllm'') ''category'') [] =
       (Inl (ExternalError ''no template''), [Construct ''QuestionCategoryPrompt''])"
proof -
  have l: "ascii_lower ''LOCAL'' = ''local''" by code_simp
  show ?thesis
    by (simp add: init_classifier_def init_model_def dict_get_def sample_config_def
        sample_externals_def broken_prompts_def l Let_def)
qed

subsection \<open>The classification loop\<close>

lemma at_set_effect:
  assumes "at_set ext df idx col v = Inr df1"
  shows "set (columns df) \<subseteq> set (columns df1)"
    and "idx < length (rows df) \<Longrightarrow> length (rows df1) = length (rows df)"
    and "idx < length (rows df) \<Longrightarrow> j \<noteq> idx \<Longrightarrow> rows df1 ! j = rows df ! j"
  using assms by (auto simp: at_set_def split: option.splits)

lemma classify_row_effect:
  assumes "idx < length (rows df)" and "classify_row ext idx s df = (r, df1)"
  shows "set (columns df) \<subseteq> set (columns df1)"
    and "length (rows df1) = length (rows df)"
    and "j \<noteq> idx \<Longrightarrow> rows df1 ! j = rows df ! j"
proof -
  have "set (columns df) \<subseteq> set (columns df1) \<and> length (rows df1) = length (rows df)
      \<and> (j \<noteq> idx \<longrightarrow> rows df1 ! j = rows df ! j)"
  proof (cases "if s \<noteq> [] then json_loads ext s else Inr (JObject [])")
    case (Inl e)
    then show ?thesis using assms(2) by (simp add: classify_row_def)
  next
    case (Inr classification)
    show ?thesis
    proof (cases "\<exists>d. classification = JObject d")
      case False
      then have "classify_row ext idx s df = (Inl AttributeError, df)"
        using Inr by (cases classification) (simp_all add: classify_row_def)
      then show ?thesis using assms(2) by simp
    next
      case True
      then obtain d where d: "classification = JObject d" by blast
      show ?thesis
      proof (cases "at_set ext df idx (JString ''primary_category'') (dict_get d ''primary_category'' (JString []))")
        case (Inl e)
        then show ?thesis using assms(2) Inr d by (simp add: classify_row_def)
      next
        case a1: (Inr dfa)
        note e1 = at_set_effect[OF a1]
        have la: "idx < length (rows dfa)" using e1(2) assms(1) by simp
        show ?thesis
        proof (cases "at_set ext dfa idx (JString ''secondary_category'') (dict_get d ''secondary_category'' (JString []))")
          case (Inl e)
          then have "df1 = dfa" using assms(2) Inr d a1 by (simp add: classify_row_def)
          then show ?thesis using e1 assms(1) by simp
        next
          case a2: (Inr dfb)
          note e2 = at_set_effect[OF a2]
          have "df1 = dfb" using assms(2) Inr d a1 a2 by (simp add: classify_row_def)
          then show ?thesis using e1 e2 assms(1) la by auto
        qed
      qed
    qed
  qed
  then show "set (columns df) \<subseteq> set (columns df1)"
    and "length (rows df1) = length (rows df)"
    and "j \<noteq> idx \<Longrightarrow> rows df1 ! j = rows df ! j"
    by simp_all
qed


lemma classify_loop_effect:
  "idx + length ss \<le> length (rows df) \<Longrightarrow>
   (\<exists>evs. snd (classify_loop ext idx ss df w) = w @ evs \<and> filter is_write evs = [])
   \<and> set (columns df) \<subseteq> set (columns (fst (classify_loop ext idx ss df w)))
   \<and> length (rows (fst (classify_loop ext idx ss df w))) = length (rows df)
   \<and> (\<forall>j. \<not> (idx \<le> j \<and> j < idx + length ss) \<longrightarrow>
        rows (fst (classify_loop ext idx ss df w)) ! j = rows df ! j)"
proof (induction ss arbitrary: idx df w)
  case Nil
  show ?case by simp
next
  case (Cons s rest)
  have i: "idx < length (rows df)" using Cons.prems by simp
  obtain r df1 where c: "classify_row ext idx s df = (r, df1)"
    by (cases "classify_row ext idx s df")
  note e = classify_row_effect[OF i c]
  have "\<exists>evs. classify_loop ext idx (s # rest) df w = classify_loop ext (Suc idx) rest df1 (w @ evs)
      \<and> filter is_write evs = []"
  proof (cases r)
    case (Inl x)
    then have "classify_loop ext idx (s # rest) df w = classify_loop ext (Suc idx) rest df1
        (w @ [CPrint (if x = JSONDecodeError then JsonWarning s else ParseError x)])"
      using c by simp
    then show ?thesis
      by (intro exI[of _ "[CPrint (if x = JSONDecodeError then JsonWarning s else ParseError x)]"]) simp
  next
    case (Inr u)
    then have "classify_loop ext idx (s # rest) df w = classify_loop ext (Suc idx) rest df1 (w @ [])"
      using c by simp
    then show ?thesis by (intro exI[of _ "[]"]) simp
  qed
  then obtain evs where st: "classify_loop ext idx (s # rest) df w = classify_loop ext (Suc idx) rest df1 (w @ evs)"
    and nw: "filter is_write evs = []"
    by blast
  have p: "Suc idx + length rest \<le> length (rows df1)" using Cons.prems e(2) by simp
  note ih = Cons.IH[OF p, of "w @ evs"]
  obtain evs2 where e2: "snd (classify_loop ext (Suc idx) rest df1 (w @ evs)) = (w @ evs) @ evs2"
    "filter is_write evs2 = []"
    using ih by blast
  have t: "\<exists>evs'. snd (classify_loop ext idx (s # rest) df w) = w @ evs' \<and> filter is_write evs' = []"
    unfolding st using e2 nw by (intro exI[of _ "evs @ evs2"]) simp
  have k: "set (columns df) \<subseteq> set (columns (fst (classify_loop ext idx (s # rest) df w)))"
    unfolding st using e(1) ih by blast
  have l: "length (rows (fst (classify_loop ext idx (s # rest) df w))) = length (rows df)"
    unfolding st using ih e(2) by simp
  have r: "\<forall>j. \<not> (idx \<le> j \<and> j < idx + length (s # rest)) \<longrightarrow>
        rows (fst (classify_loop ext idx (s # rest) df w)) ! j = rows df ! j"
  proof (intro allI impI)
    fix j assume j: "\<not> (idx \<le> j \<and> j < idx + length (s # rest))"
    then have j1: "\<not> (Suc idx \<le> j \<and> j < Suc idx + length rest)" and j2: "j \<noteq> idx" by auto
    have "rows (fst (classify_loop ext (Suc idx) rest df1 (w @ evs))) ! j = rows df1 ! j"
      using ih j1 by blast
    then show "rows (fst (classify_loop ext idx (s # rest) df w)) ! j = rows df ! j"
      unfolding st using e(3)[OF j2] by simp
  qed
  show ?case using t k l r by blast
qed



lemma run_loop_effect:
  "(\<exists>evs. snd (run_loop ext self df prompts responses w)
        = w @ [ReadJson (input_file self), Generate prompts] @ evs \<and> filter is_write evs = [])
   \<and> set (columns df) \<subseteq> set (columns (fst (run_loop ext self df prompts responses w)))
   \<and> length (rows (fst (run_loop ext self df prompts responses w))) = length (rows df)"
proof -
  have p: "0 + length (take (length (rows df)) responses) \<le> length (rows df)" by simp
  show ?thesis
    unfolding run_loop_def
    using classify_loop_effect[OF p, of ext "w @ [ReadJson (input_file self), Generate prompts]"]
    by simp
qed

subsection \<open>The run\<close>

text \<open>
  Claim C7, as the code has it. When the output key is a string and one of the column labels
  of the dataframe read from the input file (the classification loop only adds columns, so
  it is still one behind the loop), \<^verbatim>\<open>run\<close> creates no directory and writes no file, and it raises nothing to
  its caller: the handler of line 99 catches the fault and prints it, and \<^verbatim>\<open>run\<close> returns.
  The check stands behind the loop, so when the prompts were built and the answers
  generated, all rows have been classified before the ValueError of line 88 is raised
  and printed.
\<close>

theorem output_key_collision:
  assumes "read_json ext (input_file self) = Inr df"
    and "output_key self = JString k"
    and "JString k \<in> set (columns df)"
  shows "fst (run ext self w) = Inr ()
     \<and> (\<exists>evs e. snd (run ext self w) = w @ evs @ [CPrint (RunError e)] \<and> filter is_write evs = [])
     \<and> (\<forall>prompts responses.
           reformat_prompt ext self df = Inr prompts \<and>
           generate_text_from_input ext (model self) prompts = Inr responses \<longrightarrow>
           snd (run ext self w) = snd (run_loop ext self df prompts responses w) @
             [CPrint (RunError (ValueError
                ''Found output_key in the dataframe, which would overwrite an existing column.''))])"
proof -
  have a: "fst (run ext self w) = Inr ()"
    by (simp add: run_def split: prod.splits sum.splits)
  have c: "\<And>prompts responses.
           reformat_prompt ext self df = Inr prompts \<Longrightarrow>
           generate_text_from_input ext (model self) prompts = Inr responses \<Longrightarrow>
           snd (run ext self w) = snd (run_loop ext self df prompts responses w) @
             [CPrint (RunError (ValueError
                ''Found output_key in the dataframe, which would overwrite an existing column.''))]"
  proof -
    fix prompts responses
    assume r: "reformat_prompt ext self df = Inr prompts"
      and g: "generate_text_from_input ext (model self) prompts = Inr responses"
    obtain df1 w1 where l: "run_loop ext self df prompts responses w = (df1, w1)"
      by (cases "run_loop ext self df prompts responses w")
    have "set (columns df) \<subseteq> set (columns df1)"
      using run_loop_effect[of ext self df prompts responses w] l by simp
    then have "in_columns ext (output_key self) df1 = Inr True"
      using assms(2,3) by (auto simp: in_columns_def)
    then show "snd (run ext self w) = snd (run_loop ext self df prompts responses w) @
             [CPrint (RunError (ValueError
                ''Found output_key in the dataframe, which would overwrite an existing column.''))]"
      using assms(1) r g l by (simp add: run_def run_body_def)
  qed
  have b: "\<exists>evs e. snd (run ext self w) = w @ evs @ [CPrint (RunError e)] \<and> filter is_write evs = []"
  proof (cases "reformat_prompt ext self df")
    case (Inl e)
    then have "snd (run ext self w) = w @ [ReadJson (input_file self)] @ [CPrint (RunError e)]"
      using assms(1) by (simp add: run_def run_body_def)
    moreover have "filter is_write [ReadJson (input_file self)] = []" by simp
    ultimately show ?thesis by blast
  next
    case (Inr prompts)
    show ?thesis
    proof (cases "generate_text_from_input ext (model self) prompts")
      case (Inl e)
      then have "snd (run ext self w) = w @ [ReadJson (input_file self), Generate prompts] @ [CPrint (RunError e)]"
        using assms(1) Inr by (simp add: run_def run_body_def)
      moreover have "filter is_write [ReadJson (input_file self), Generate prompts] = []" by simp
      ultimately show ?thesis by blast
    next
      case (Inr responses)
      obtain evs where evs: "snd (run_loop ext self df prompts responses w)
          = w @ [ReadJson (input_file self), Generate prompts] @ evs" "filter is_write evs = []"
        using run_loop_effect[of ext self df prompts responses w] by blast
      have "snd (run ext self w) = w @ ([ReadJson (input_file self), Generate prompts] @ evs) @
             [CPrint (RunError (ValueError
                ''Found output_key in the dataframe, which would overwrite an existing column.''))]"
        using c[OF \<open>reformat_prompt ext self df = Inr prompts\<close> Inr] evs(1) by simp
      moreover have "filter is_write ([ReadJson (input_file self), Generate prompts] @ evs) = []"
        using evs(2) by simp
      ultimately show ?thesis by blast
    qed
  qed
  show ?thesis using a b c by blast
qed

theorem output_key_collision_witness:
  "read_json sample_externals (input_file (sample_classifier ''question'')) = Inr sample_df
   \<and> output_key (sample_classifier ''question'') = JString ''question''
   \<and> JString ''question'' \<in> set (columns sample_df)
   \<and> fst (run sample_externals (sample_classifier ''question'') []) = Inr ()
   \<and> filter is_write (snd (run sample_externals (sample_classifier ''question'') [])) = []"
proof -
  have h1: "read_json sample_externals (input_file (sample_classifier ''question'')) = Inr sample_df"
    by (simp add: sample_externals_def)
  have h2: "output_key (sample_classifier ''question'') = JString ''question''"
    by (simp add: sample_classifier_def)
  have h3: "JString ''question'' \<in> set (columns sample_df)"
    by (simp add: sample_df_def)
  obtain evs e where r: "snd (run sample_externals (sample_classifier ''question'') [])
      = [] @ evs @ [CPrint (RunError e)]" "filter is_write evs = []"
    using output_key_collision[OF h1 h2 h3, of "[]"] by blast
  have "filter is_write (snd (run sample_externals (sample_classifier ''question'') [])) = []"
    unfolding r(1) using r(2) by simp
  then show ?thesis using output_key_collision[OF h1 h2 h3, of "[]"] h1 h2 h3 by simp
qed

text \<open>
  The claim C7 as stated fails: the output key \<^verbatim>\<open>question\<close> is a column of the input, and
  \<^verbatim>\<open>run\<close> returns normally, after the whole batch has been classified.
\<close>

theorem output_key_collision_counterexample:
  "JString ''question'' \<in> set (columns sample_df)
   \<and> run sample_externals (sample_classifier ''question'') [] =
      (Inr (),
       [ReadJson (JString ''in.jsonl''),
        Generate [''Classify the question.'', ''Classify the question.''],
        CPrint (JsonWarning ''no json here''),
        CPrint (RunError (ValueError
          ''Found output_key in the dataframe, which would overwrite an existing column.''))])"
proof -
  have s: "ascii_strip '' Classify the question. '' = ''Classify the question.''" by code_simp
  have n: "''no json here'' \<noteq> sample_answer" by (simp add: sample_answer_def)
  have m: "sample_answer \<noteq> []" by (simp add: sample_answer_def)
  show ?thesis
    by (simp add: run_def run_body_def run_loop_def sample_externals_def sample_classifier_def
        sample_df_def reformat_prompt_def in_columns_def column_cells_def classify_row_def
        s n m sample_loads_def at_set_def dict_get_def)
qed






end
